theory Spec2Isabelle
  imports Main
begin

section \<open>JavaScript strings\<close>

text \<open>
  A JavaScript string is modelled as a \<^typ>\<open>string\<close>: one \<^typ>\<open>char\<close> per UTF-16 code
  unit, for the code units 0 to 255. The character classes below are the ones the regular
  expressions of the source use, restricted to that range.
\<close>

definition isDigit :: "char \<Rightarrow> bool" where
  \<comment> \<open>the class \<open>\d\<close>, also \<open>0-9\<close>\<close>
  "isDigit c = (c \<in> set ''0123456789'')"

definition isIdentStart :: "char \<Rightarrow> bool" where
  \<comment> \<open>the class \<open>[a-zA-Z_]\<close>\<close>
  "isIdentStart c =
     (c \<in> set ''abcdefghijklmnopqrstuvwxyzABCDEFGHIJKLMNOPQRSTUVWXYZ_'')"

definition isIdentChar :: "char \<Rightarrow> bool" where
  \<comment> \<open>the class \<open>[a-zA-Z0-9_-]\<close>\<close>
  "isIdentChar c = (isIdentStart c \<or> isDigit c \<or> c = CHR ''-'')"

definition isSpace :: "char \<Rightarrow> bool" where
  \<comment> \<open>the class \<open>\s\<close>: tab, line feed, vertical tab, form feed, carriage return, space,
      no-break space\<close>
  "isSpace c =
     (c \<in> set [CHR 0x09, CHR 0x0A, CHR 0x0B, CHR 0x0C, CHR 0x0D, CHR 0x20, CHR 0xA0])"

definition validIdent :: "string \<Rightarrow> bool" where
  \<comment> \<open>\<open>/^[a-zA-Z_][a-zA-Z0-9_-]*$/.test(s)\<close>\<close>
  "validIdent s = (case s of [] \<Rightarrow> False | c # cs \<Rightarrow> isIdentStart c \<and> list_all isIdentChar cs)"

fun digitRun3 :: "string \<Rightarrow> bool" where
  \<comment> \<open>\<open>/\d{3,}/.test(s)\<close>: three digits in a row somewhere\<close>
  "digitRun3 (a # b # c # rest) =
     ((isDigit a \<and> isDigit b \<and> isDigit c) \<or> digitRun3 (b # c # rest))"
| "digitRun3 _ = False"

definition allDigits :: "string \<Rightarrow> bool" where
  \<comment> \<open>\<open>/^\d+$/.test(s)\<close>\<close>
  "allDigits s = (s \<noteq> [] \<and> list_all isDigit s)"

definition trim :: "string \<Rightarrow> string" where
  \<comment> \<open>\<open>s.trim()\<close>\<close>
  "trim s = rev (dropWhile isSpace (rev (dropWhile isSpace s)))"

fun startsWith :: "string \<Rightarrow> string \<Rightarrow> bool" where
  \<comment> \<open>\<open>s.startsWith(p)\<close>, the subject first\<close>
  "startsWith s [] = True"
| "startsWith [] (p # ps) = False"
| "startsWith (c # cs) (p # ps) = (c = p \<and> startsWith cs ps)"

fun includesStr :: "string \<Rightarrow> string \<Rightarrow> bool" where
  \<comment> \<open>\<open>s.includes(p)\<close>, the subject first\<close>
  "includesStr [] p = (p = [])"
| "includesStr (c # cs) p = (startsWith (c # cs) p \<or> includesStr cs p)"

fun splitOn :: "char \<Rightarrow> string \<Rightarrow> string list" where
  \<comment> \<open>\<open>s.split(d)\<close> for a one-character separator: never the empty list\<close>
  "splitOn d [] = [[]]"
| "splitOn d (c # cs) =
     (if c = d then [] # splitOn d cs
      else (case splitOn d cs of [] \<Rightarrow> [[c]] | h # t \<Rightarrow> (c # h) # t))"

fun splitSpacesFrom :: "bool \<Rightarrow> string \<Rightarrow> string \<Rightarrow> string list" where
  \<comment> \<open>the scan behind \<open>s.split(/\s+/)\<close>: the flag says that the character before was
      white space, the second argument is the piece read so far, reversed\<close>
  "splitSpacesFrom inSep cur [] = [rev cur]"
| "splitSpacesFrom inSep cur (c # cs) =
     (if isSpace c then
        (if inSep then splitSpacesFrom True cur cs
         else rev cur # splitSpacesFrom True [] cs)
      else splitSpacesFrom False (c # cur) cs)"

definition splitSpaces :: "string \<Rightarrow> string list" where
  \<comment> \<open>\<open>s.split(/\s+/)\<close>\<close>
  "splitSpaces s = splitSpacesFrom False [] s"

fun collapseSpacesFrom :: "bool \<Rightarrow> string \<Rightarrow> string" where
  \<comment> \<open>the scan behind \<open>s.replace(/\s+/g, ' ')\<close>\<close>
  "collapseSpacesFrom inSep [] = []"
| "collapseSpacesFrom inSep (c # cs) =
     (if isSpace c then
        (if inSep then collapseSpacesFrom True cs else CHR '' '' # collapseSpacesFrom True cs)
      else c # collapseSpacesFrom False cs)"

definition collapseSpaces :: "string \<Rightarrow> string" where
  \<comment> \<open>\<open>s.replace(/\s+/g, ' ')\<close>\<close>
  "collapseSpaces s = collapseSpacesFrom False s"

fun replaceFirstChar :: "char \<Rightarrow> string \<Rightarrow> string \<Rightarrow> string" where
  \<comment> \<open>\<open>s.replace(c, r)\<close> with a one-character string pattern: the first occurrence only\<close>
  "replaceFirstChar d r [] = []"
| "replaceFirstChar d r (c # cs) = (if c = d then r @ cs else c # replaceFirstChar d r cs)"

definition replaceAllChar :: "char \<Rightarrow> string \<Rightarrow> string \<Rightarrow> string" where
  \<comment> \<open>\<open>s.replace(/c/g, r)\<close> for a one-character pattern\<close>
  "replaceAllChar d r s = concat (map (\<lambda>c. if c = d then r else [c]) s)"

definition joinWith :: "string \<Rightarrow> string list \<Rightarrow> string" where
  \<comment> \<open>\<open>parts.join(sep)\<close>\<close>
  "joinWith sep parts =
     (case parts of [] \<Rightarrow> [] | p # ps \<Rightarrow> p @ concat (map (\<lambda>q. sep @ q) ps))"

definition truthy :: "string option \<Rightarrow> bool" where
  \<comment> \<open>a \<open>string | null | undefined\<close> value in a condition: a non-empty string\<close>
  "truthy v = (case v of None \<Rightarrow> False | Some s \<Rightarrow> s \<noteq> [])"

definition strOf :: "string option \<Rightarrow> string" where
  \<comment> \<open>the string of a value that a condition found truthy\<close>
  "strOf v = (case v of None \<Rightarrow> [] | Some s \<Rightarrow> s)"

definition orElse :: "string option \<Rightarrow> string option \<Rightarrow> string option" where
  \<comment> \<open>\<open>a || b\<close>\<close>
  "orElse a b = (if truthy a then a else b)"

subsection \<open>Numbers in a template string\<close>

fun showNat :: "nat \<Rightarrow> string" where
  "showNat n =
     (if n < 10 then [''0123456789'' ! n]
      else showNat (n div 10) @ [''0123456789'' ! (n mod 10)])"

text \<open>
  A Number is a double. The index of an xpath step is parsed from a string of digits, so it
  is the double nearest to a natural number: such doubles are written here as the natural
  numbers they are, and \<open>None\<close> is \<open>Infinity\<close>.
\<close>

definition digitVal :: "char \<Rightarrow> nat" where
  "digitVal c = length (takeWhile (\<lambda>d. d \<noteq> c) ''0123456789'')"

definition parseDigits :: "string \<Rightarrow> nat" where
  \<comment> \<open>the mathematical value of a string of decimal digits\<close>
  "parseDigits s = foldl (\<lambda>acc c. 10 * acc + digitVal c) 0 s"

fun bitLength :: "nat \<Rightarrow> nat" where
  "bitLength n = (if n = 0 then 0 else Suc (bitLength (n div 2)))"

definition toDouble :: "nat \<Rightarrow> nat option" where
  \<comment> \<open>the Number for a natural number: 53 significant bits, rounded to nearest, ties to
      the even significand; from \<open>2^1024\<close> on the result is \<open>Infinity\<close>\<close>
  "toDouble n =
     (let e = bitLength n - 53;
          q = n div 2 ^ e;
          r = n mod 2 ^ e;
          up = (2 * r > 2 ^ e \<or> (2 * r = 2 ^ e \<and> odd q));
          d = (if up then q + 1 else q) * 2 ^ e
      in if d \<ge> 2 ^ 1024 then None else Some d)"

definition indexNumber :: "nat \<Rightarrow> nat option" where
  \<comment> \<open>\<open>index + 1\<close> for \<open>index = Number.parseInt(idx, 10) - 1\<close>, from the value of \<open>idx\<close>: the
      parse, the subtraction and the addition each round their exact result\<close>
  "indexNumber n =
     (case toDouble n of
        None \<Rightarrow> None
      | Some d \<Rightarrow>
          if d = 0 then Some 0
          else (case toDouble (d - 1) of None \<Rightarrow> None | Some i \<Rightarrow> toDouble (i + 1)))"

fun shortestDecimal :: "nat \<Rightarrow> nat \<Rightarrow> nat" where
  \<comment> \<open>the decimal with the fewest significant digits that still reads back as the double
      \<open>x\<close>, and of those the nearest to \<open>x\<close>; the second argument counts the trailing zeros
      to leave, the most first\<close>
  "shortestDecimal x 0 = x"
| "shortestDecimal x (Suc j) =
     (let p = 10 ^ Suc j; lo = (x div p) * p; hi = lo + p;
          okLo = (toDouble lo = Some x); okHi = (toDouble hi = Some x)
      in if okLo \<and> okHi then (if x - lo \<le> hi - x then lo else hi)
         else if okLo then lo
         else if okHi then hi
         else shortestDecimal x j)"

definition numberText :: "nat option \<Rightarrow> string" where
  \<comment> \<open>\<open>${number}\<close> in a template, for a Number that is a natural number or \<open>Infinity\<close>: up
      to 21 digits the shortest decimal in full, beyond that its digits and an exponent\<close>
  "numberText d =
     (case d of
        None \<Rightarrow> ''Infinity''
      | Some x \<Rightarrow>
          (let v = shortestDecimal x (length (showNat x) - 1);
               n = length (showNat v);
               s = rev (dropWhile (\<lambda>c. c = CHR ''0'') (rev (showNat v)))
           in if n \<le> 21 then showNat v
              else take 1 s @ (if length s > 1 then ''.'' @ drop 1 s else [])
                     @ ''e+'' @ showNat (n - 1)))"

definition indexText :: "string \<Rightarrow> string" where
  \<comment> \<open>\<open>const index = Number.parseInt(idx, 10) - 1\<close> and then the text of \<open>index + 1\<close>, for
      \<open>idx\<close> a string of digits. With at most 15 significant digits the value is below
      \<open>2^53\<close>, the arithmetic is exact and the text is the decimal numeral: the digits
      without their leading zeros. A longer index goes through the rounding.\<close>
  "indexText idx =
     (let significant = dropWhile (\<lambda>c. c = CHR ''0'') idx
      in if significant = [] then ''0''
         else if length significant \<le> 15 then significant
         else numberText (indexNumber (parseDigits significant)))"


definition indexName :: "nat option \<Rightarrow> string" where
  \<comment> \<open>\<open>${node.highlightIndex}\<close> in a template\<close>
  "indexName i = (case i of None \<Rightarrow> ''undefined'' | Some n \<Rightarrow> showNat n)"

section \<open>DOM element nodes (dom/views.ts)\<close>

text \<open>
  \<open>DOMElementNode\<close> with the fields the operations below read. \<open>attributes\<close> is a
  \<open>Record<string, string>\<close>: an association list in insertion order, which is the order of
  \<open>Object.entries\<close> for the keys that are not array indices. An object holds a key once,
  so the keys of a well-formed list are distinct; nothing below depends on it. The
  \<open>parent\<close> back-reference makes the ancestor chain; the chain is finite, as it is in a
  tree. The optional
  \<open>viewportCoordinates?.center\<close>, \<open>pageCoordinates?.center\<close> and the scroll offsets of
  \<open>viewportInfo\<close> are pairs of pixels (their declarations live in \<open>dom/history/view\<close>).
\<close>

datatype elem = Elem
  (tagName: "string option")
  (xpath: "string option")
  (attributes: "(string \<times> string) list")
  (highlightIndex: "nat option")
  (viewportCenter: "(int \<times> int) option")
  (pageCenter: "(int \<times> int) option")
  (viewportScroll: "(int \<times> int) option")
  (parent: "elem option")

definition attr :: "elem \<Rightarrow> string \<Rightarrow> string option" where
  \<comment> \<open>\<open>this.attributes[key]\<close>\<close>
  "attr el k = map_of (attributes el) k"

subsection \<open>convertSimpleXPathToCssSelector\<close>

definition stripLeadingSlash :: "string \<Rightarrow> string" where
  \<comment> \<open>\<open>xpath.replace(/^\//, '')\<close>\<close>
  "stripLeadingSlash s = (case s of [] \<Rightarrow> [] | c # cs \<Rightarrow> if c = CHR ''/'' then cs else c # cs)"

definition bracketIndices :: "string \<Rightarrow> string list" where
  \<comment> \<open>\<open>indexPart.split(']').slice(0, -1).map(i => i.replace('[', ''))\<close>\<close>
  "bracketIndices indexPart =
     map (replaceFirstChar (CHR ''['') []) (butlast (splitOn (CHR '']'') indexPart))"

fun applyIndices :: "string list \<Rightarrow> string \<Rightarrow> string" where
  \<comment> \<open>the loop \<open>for (const idx of indices)\<close> over \<open>basePart\<close>\<close>
  "applyIndices [] basePart = basePart"
| "applyIndices (idx # rest) basePart =
     (if allDigits idx then
        applyIndices rest (basePart @ '':nth-of-type('' @ indexText idx @ '')'')
      else if idx = ''last()'' then applyIndices rest (basePart @ '':last-of-type'')
      else if includesStr idx ''position()'' then
        (if includesStr idx ''>1'' then applyIndices rest (basePart @ '':nth-of-type(n+2)'')
         else applyIndices rest basePart)
      else applyIndices rest basePart)"

definition convertPart :: "string \<Rightarrow> string" where
  \<comment> \<open>one step of \<open>for (const part of parts)\<close>, for a non-empty part: what is pushed\<close>
  "convertPart part =
     (if includesStr part ''['' then
        applyIndices
          (bracketIndices (dropWhile (\<lambda>c. c \<noteq> CHR ''['') part))
          (takeWhile (\<lambda>c. c \<noteq> CHR ''['') part)
      else part)"

definition convertSimpleXPathToCssSelector :: "string \<Rightarrow> string" where
  \<comment> \<open>empty parts are skipped, the others converted and joined\<close>
  "convertSimpleXPathToCssSelector xp =
     (if xp = [] then []
      else joinWith '' > ''
             (map convertPart
                (filter (\<lambda>part. part \<noteq> []) (splitOn (CHR ''/'') (stripLeadingSlash xp)))))"

subsection \<open>enhancedCssSelectorForElement\<close>

definition KEY_ATTRIBUTES :: "string list" where
  "KEY_ATTRIBUTES = [''aria-label'', ''role'', ''type'', ''placeholder'', ''title'', ''alt'']"

definition FORM_TAGS :: "string list" where
  \<comment> \<open>the array literal of the \<open>name\<close> rule\<close>
  "FORM_TAGS = [''input'', ''textarea'', ''select'', ''button'']"

definition tagOrStar :: "elem \<Rightarrow> string" where
  \<comment> \<open>\<open>this.tagName || '*'\<close>\<close>
  "tagOrStar el = (if truthy (tagName el) then strOf (tagName el) else ''*'')"

definition testId :: "elem \<Rightarrow> string option" where
  \<comment> \<open>\<open>attributes['data-testid'] || attributes['data-qa'] || attributes['data-cy']\<close>\<close>
  "testId el = orElse (attr el ''data-testid'') (orElse (attr el ''data-qa'') (attr el ''data-cy''))"

definition testAttrName :: "elem \<Rightarrow> string" where
  "testAttrName el =
     (if truthy (attr el ''data-testid'') then ''data-testid''
      else if truthy (attr el ''data-qa'') then ''data-qa''
      else ''data-cy'')"

fun classLoop :: "string list \<Rightarrow> nat \<Rightarrow> string \<Rightarrow> string" where
  \<comment> \<open>\<open>for (const className of classes)\<close>, from \<open>classCount\<close> and \<open>cssSelector\<close>\<close>
  "classLoop [] classCount cssSelector = cssSelector"
| "classLoop (className # rest) classCount cssSelector =
     (if trim className = [] then classLoop rest classCount cssSelector
      else if digitRun3 className \<or> length className > 20 then
        classLoop rest classCount cssSelector
      else if validIdent className \<and> classCount < 2 then
        classLoop rest (Suc classCount) (cssSelector @ ''.'' @ className)
      else classLoop rest classCount cssSelector)"

definition addClasses :: "bool \<Rightarrow> elem \<Rightarrow> string \<Rightarrow> string" where
  \<comment> \<open>\<open>if (this.attributes['class'] && includeDynamicAttributes) { ... }\<close>\<close>
  "addClasses includeDynamicAttributes el cssSelector =
     (if truthy (attr el ''class'') \<and> includeDynamicAttributes then
        classLoop (splitSpaces (strOf (attr el ''class''))) 0 cssSelector
      else cssSelector)"

definition needsSubstringMatch :: "string \<Rightarrow> bool" where
  \<comment> \<open>the test of the value against the class of quotes, angle brackets, backquote, line
      feed, carriage return and tab\<close>
  "needsSubstringMatch v =
     (\<exists>c \<in> set v. c \<in> set [CHR 0x22, CHR 0x27, CHR ''<'', CHR ''>'', CHR 0x60,
                             CHR 0x0A, CHR 0x0D, CHR 0x09])"

fun attributeLoop :: "(string \<times> string) list \<Rightarrow> string \<Rightarrow> string" where
  \<comment> \<open>\<open>for (const [attribute, value] of Object.entries(this.attributes))\<close>\<close>
  "attributeLoop [] cssSelector = cssSelector"
| "attributeLoop ((attribute, v) # rest) cssSelector =
     (if attribute = ''class'' \<or> attribute = ''id'' then attributeLoop rest cssSelector
      else if trim attribute = [] \<or> attribute \<notin> set KEY_ATTRIBUTES then
        attributeLoop rest cssSelector
      else if v = [] then attributeLoop rest cssSelector
      else
        (let safeAttribute = replaceFirstChar (CHR '':'') [CHR 0x5C, CHR '':''] attribute in
         if needsSubstringMatch v then
           (let collapsedValue = trim (collapseSpaces v);
                safeValue = replaceAllChar (CHR 0x22) [CHR 0x5C, CHR 0x22] collapsedValue
            in attributeLoop rest
                 (cssSelector @ ''['' @ safeAttribute @ ''*='' @ [CHR 0x22] @ safeValue
                    @ [CHR 0x22] @ '']''))
         else
           attributeLoop rest
             (cssSelector @ ''['' @ safeAttribute @ ''='' @ [CHR 0x22] @ v
                @ [CHR 0x22] @ '']'')))"

definition enhancedCssSelectorForElement :: "bool \<Rightarrow> elem \<Rightarrow> string" where
  \<comment> \<open>The body of the \<open>try\<close> block. No statement of it can throw on a node of the declared
      type, so the \<open>catch\<close> branch with the \<open>highlight-index\<close> sentinel is never entered.\<close>
  "enhancedCssSelectorForElement includeDynamicAttributes el =
     (if \<not> truthy (xpath el) then []
      else
        (let tag = tagOrStar el; ident = attr el ''id'' in
         if truthy ident \<and> validIdent (strOf ident) then tag @ ''#'' @ strOf ident
         else if truthy (testId el) \<and> includeDynamicAttributes then
           tag @ ''['' @ testAttrName el @ ''='' @ [CHR 0x22] @ strOf (testId el)
             @ [CHR 0x22] @ '']''
         else if truthy (attr el ''name'') \<and> tag \<in> set FORM_TAGS then
           tag @ ''[name='' @ [CHR 0x22] @ strOf (attr el ''name'') @ [CHR 0x22] @ '']''
         else
           (let cssSelector =
                  attributeLoop (attributes el) (addClasses includeDynamicAttributes el tag)
            in if cssSelector = tag then convertSimpleXPathToCssSelector (strOf (xpath el))
               else cssSelector)))"

definition sentinelSelector :: "elem \<Rightarrow> string" where
  \<comment> \<open>the value of the \<open>catch\<close> branch of \<open>enhancedCssSelectorForElement\<close>\<close>
  "sentinelSelector el =
     tagOrStar el @ ''[highlight-index='' @ [CHR 0x27] @ indexName (highlightIndex el)
       @ [CHR 0x27] @ '']''"

definition TEST_ATTRIBUTES :: "string list" where
  \<comment> \<open>the test attributes, in the order the source reads them\<close>
  "TEST_ATTRIBUTES = [''data-testid'', ''data-qa'', ''data-cy'']"

definition stableClass :: "string \<Rightarrow> bool" where
  \<comment> \<open>a class name as the specification wants it for rule 4: no run of three digits, at
      most 20 characters, and an identifier\<close>
  "stableClass c = (\<not> digitRun3 c \<and> length c \<le> 20 \<and> validIdent c)"

section \<open>The memoised hash of a node (dom/views.ts)\<close>

text \<open>
  \<open>HashedDomElement\<close> is an object of three strings, so it is always truthy in the test
  \<open>if (this._hashedValue)\<close>. \<open>HistoryTreeProcessor.hashDomElement\<close> is asynchronous: an
  invocation starts a computation that settles later. Computations are numbered in the
  order they are started, and the number of the next one is the count of invocations so
  far. JavaScript runs each call and each promise callback to completion, so the node's
  cache changes only by the four operations below.
\<close>

record hashed =
  branchPathHash :: string
  attributesHash :: string
  xpathHash :: string

record hash_cache =
  hashedValue :: "hashed option"  \<comment> \<open>\<open>_hashedValue\<close>\<close>
  hashPromise :: "nat option"  \<comment> \<open>\<open>_hashPromise\<close>: the computation the stored promise follows\<close>
  invocations :: nat  \<comment> \<open>how often \<open>hashDomElement\<close> has been invoked on this node\<close>

datatype reply =
  Value hashed  \<comment> \<open>the promise returned is resolved with the cached value\<close>
| Awaits nat  \<comment> \<open>the promise returned follows this computation\<close>

definition freshCache :: hash_cache where
  "freshCache = \<lparr>hashedValue = None, hashPromise = None, invocations = 0\<rparr>"

definition hash :: "hash_cache \<Rightarrow> reply \<times> hash_cache" where
  "hash c =
     (case hashedValue c of
        Some v \<Rightarrow> (Value v, c)
      | None \<Rightarrow>
          (case hashPromise c of
             None \<Rightarrow>
               (Awaits (invocations c),
                c\<lparr>hashPromise := Some (invocations c), invocations := Suc (invocations c)\<rparr>)
           | Some p \<Rightarrow> (Awaits p, c)))"

definition hashResolved :: "hashed \<Rightarrow> hash_cache \<Rightarrow> hash_cache" where
  \<comment> \<open>the \<open>.then\<close> callback, run when a computation resolves with \<open>result\<close>\<close>
  "hashResolved result c = c\<lparr>hashedValue := Some result, hashPromise := None\<rparr>"

definition hashRejected :: "hash_cache \<Rightarrow> hash_cache" where
  \<comment> \<open>the \<open>.catch\<close> callback, run when a computation rejects\<close>
  "hashRejected c = c\<lparr>hashPromise := None\<rparr>"

definition clearHashCache :: "hash_cache \<Rightarrow> hash_cache" where
  "clearHashCache c = c\<lparr>hashedValue := None, hashPromise := None\<rparr>"

fun hashCalls :: "nat \<Rightarrow> hash_cache \<Rightarrow> reply list \<times> hash_cache" where
  \<comment> \<open>\<open>n\<close> calls of \<open>hash()\<close> one after the other with nothing in between: the replies in
      order, and the cache after the last\<close>
  "hashCalls 0 c = ([], c)"
| "hashCalls (Suc n) c =
     (case hash c of (r, c1) \<Rightarrow> (case hashCalls n c1 of (rs, c2) \<Rightarrow> (r # rs, c2)))"

definition received :: "nat \<Rightarrow> hashed \<Rightarrow> reply \<Rightarrow> hashed option" where
  \<comment> \<open>what the caller holding a reply receives once computation \<open>p\<close> has resolved with
      \<open>v\<close>: the \<open>.then\<close> callback returns the result unchanged\<close>
  "received p v r =
     (case r of Value w \<Rightarrow> Some w | Awaits q \<Rightarrow> if q = p then Some v else None)"

section \<open>The network-idle monitor (browser/page.ts, \<open>_waitForStableNetwork\<close>)\<close>

definition upperChars :: string where
  "upperChars = ''ABCDEFGHIJKLMNOPQRSTUVWXYZ'' @
     [CHR 0xC0, CHR 0xC1, CHR 0xC2, CHR 0xC3, CHR 0xC4, CHR 0xC5, CHR 0xC6, CHR 0xC7,
     CHR 0xC8, CHR 0xC9, CHR 0xCA, CHR 0xCB, CHR 0xCC, CHR 0xCD, CHR 0xCE, CHR 0xCF,
     CHR 0xD0, CHR 0xD1, CHR 0xD2, CHR 0xD3, CHR 0xD4, CHR 0xD5, CHR 0xD6, CHR 0xD8,
     CHR 0xD9, CHR 0xDA, CHR 0xDB, CHR 0xDC, CHR 0xDD, CHR 0xDE]"

definition lowerChars :: string where
  "lowerChars = ''abcdefghijklmnopqrstuvwxyz'' @
     [CHR 0xE0, CHR 0xE1, CHR 0xE2, CHR 0xE3, CHR 0xE4, CHR 0xE5, CHR 0xE6, CHR 0xE7,
     CHR 0xE8, CHR 0xE9, CHR 0xEA, CHR 0xEB, CHR 0xEC, CHR 0xED, CHR 0xEE, CHR 0xEF,
     CHR 0xF0, CHR 0xF1, CHR 0xF2, CHR 0xF3, CHR 0xF4, CHR 0xF5, CHR 0xF6, CHR 0xF8,
     CHR 0xF9, CHR 0xFA, CHR 0xFB, CHR 0xFC, CHR 0xFD, CHR 0xFE]"

definition lowerChar :: "char \<Rightarrow> char" where
  "lowerChar c = (case map_of (zip upperChars lowerChars) c of None \<Rightarrow> c | Some l \<Rightarrow> l)"

definition toLowerCase :: "string \<Rightarrow> string" where
  \<comment> \<open>\<open>s.toLowerCase()\<close> on the code units 0 to 255: the letters A to Z, and the capital
      letters of Latin-1\<close>
  "toLowerCase s = map lowerChar s"

definition RELEVANT_RESOURCE_TYPES :: "string list" where
  "RELEVANT_RESOURCE_TYPES =
     [''document'', ''stylesheet'', ''image'', ''font'', ''script'', ''iframe'']"

definition REALTIME_RESOURCE_TYPES :: "string list" where
  \<comment> \<open>the array literal of the second filter of \<open>onRequest\<close>\<close>
  "REALTIME_RESOURCE_TYPES = [''websocket'', ''media'', ''eventsource'', ''manifest'', ''other'']"

definition RELEVANT_CONTENT_TYPES :: "string list" where
  "RELEVANT_CONTENT_TYPES =
     [''text/html'', ''text/css'', ''application/javascript'', ''image/'', ''font/'',
      ''application/json'']"

definition STREAMING_CONTENT_TYPES :: "string list" where
  \<comment> \<open>the array literal of the streaming test of \<open>onResponse\<close>\<close>
  "STREAMING_CONTENT_TYPES =
     [''streaming'', ''video'', ''audio'', ''webm'', ''mp4'', ''event-stream'', ''websocket'',
      ''protobuf'']"

definition IGNORED_URL_PATTERNS :: "string list" where
  "IGNORED_URL_PATTERNS =
     [''analytics'', ''tracking'', ''telemetry'', ''beacon'', ''metrics'',
      ''doubleclick'', ''adsystem'', ''adserver'', ''advertising'',
      ''facebook.com/plugins'', ''platform.twitter'', ''linkedin.com/embed'',
      ''livechat'', ''zendesk'', ''intercom'', ''crisp.chat'', ''hotjar'',
      ''push-notifications'', ''onesignal'', ''pushwoosh'',
      ''heartbeat'', ''ping'', ''alive'',
      ''webrtc'', ''rtmp://'', ''wss://'',
      ''cloudfront.net'', ''fastly.net'']"

text \<open>
  A request is an object, compared by identity in the pending set: \<open>requestId\<close> stands for
  the identity. Header names are the keys of the object that \<open>headers()\<close> returns.
\<close>

record request =
  requestId :: nat
  resourceType :: string
  requestUrl :: string
  requestHeaders :: "(string \<times> string) list"

record response =
  responseRequest :: request  \<comment> \<open>\<open>response.request()\<close>\<close>
  responseHeaders :: "(string \<times> string) list"

record monitor =
  pendingRequests :: "request set"
  lastActivity :: int  \<comment> \<open>milliseconds, a value of \<open>Date.now()\<close>\<close>

definition onRequest :: "int \<Rightarrow> request \<Rightarrow> monitor \<Rightarrow> monitor" where
  \<comment> \<open>\<open>now\<close> is what \<open>Date.now()\<close> returns when the handler runs\<close>
  "onRequest now req m =
     (if resourceType req \<notin> set RELEVANT_RESOURCE_TYPES then m
      else if resourceType req \<in> set REALTIME_RESOURCE_TYPES then m
      else
        (let url = toLowerCase (requestUrl req) in
         if \<exists>pattern \<in> set IGNORED_URL_PATTERNS. includesStr url pattern then m
         else if startsWith url ''data:'' \<or> startsWith url ''blob:'' then m
         else if map_of (requestHeaders req) ''purpose'' = Some ''prefetch''
               \<or> map_of (requestHeaders req) ''sec-fetch-dest'' = Some ''video''
               \<or> map_of (requestHeaders req) ''sec-fetch-dest'' = Some ''audio'' then m
         else m\<lparr>pendingRequests := insert req (pendingRequests m), lastActivity := now\<rparr>))"

definition hexDigits :: string where
  "hexDigits = ''0123456789abcdef''"

definition digitValue :: "char \<Rightarrow> nat" where
  \<comment> \<open>the value of a digit of radix 10 or 16, either case\<close>
  "digitValue c = length (takeWhile (\<lambda>d. d \<noteq> lowerChar c) hexDigits)"

definition isRadixDigit :: "nat \<Rightarrow> char \<Rightarrow> bool" where
  "isRadixDigit radix c = (lowerChar c \<in> set (take radix hexDigits))"

definition parseInt :: "string \<Rightarrow> int option" where
  \<comment> \<open>\<open>Number.parseInt(s)\<close> with no radix: leading white space, a sign, a \<open>0x\<close> prefix for
      radix 16, then the longest run of digits; \<open>None\<close> is NaN. The value is the integer
      before its rounding to a double, which is monotone and leaves the comparison with an
      exactly representable bound as it is.\<close>
  "parseInt s =
     (let t = dropWhile isSpace s;
          negative = startsWith t ''-'';
          u = (if startsWith t ''-'' \<or> startsWith t ''+'' then drop 1 t else t);
          hex = (startsWith u ''0x'' \<or> startsWith u ''0X'');
          radix = (if hex then 16 else 10);
          ds = takeWhile (isRadixDigit radix) (if hex then drop 2 u else u);
          n = foldl (\<lambda>acc c. acc * int radix + int (digitValue c)) 0 ds
      in if ds = [] then None else Some (if negative then - n else n))"

definition tooLarge :: "string option \<Rightarrow> bool" where
  \<comment> \<open>\<open>contentLength && Number.parseInt(contentLength) > 5 * 1024 * 1024\<close>\<close>
  "tooLarge contentLength =
     (truthy contentLength \<and>
      (case parseInt (strOf contentLength) of None \<Rightarrow> False | Some n \<Rightarrow> n > 5 * 1024 * 1024))"

definition onResponse :: "int \<Rightarrow> response \<Rightarrow> monitor \<Rightarrow> monitor" where
  "onResponse now resp m =
     (let req = responseRequest resp in
      if req \<notin> pendingRequests m then m
      else
        (let contentType =
               (case map_of (responseHeaders resp) ''content-type'' of
                  None \<Rightarrow> [] | Some ct \<Rightarrow> toLowerCase ct)
         in
         if \<exists>t \<in> set STREAMING_CONTENT_TYPES. includesStr contentType t then
           m\<lparr>pendingRequests := pendingRequests m - {req}\<rparr>
         else if \<not> (\<exists>ct \<in> set RELEVANT_CONTENT_TYPES. includesStr contentType ct) then
           m\<lparr>pendingRequests := pendingRequests m - {req}\<rparr>
         else if tooLarge (map_of (responseHeaders resp) ''content-length'') then
           m\<lparr>pendingRequests := pendingRequests m - {req}\<rparr>
         else m\<lparr>pendingRequests := pendingRequests m - {req}, lastActivity := now\<rparr>))"

definition networkStable :: "int \<Rightarrow> int \<Rightarrow> monitor \<Rightarrow> bool" where
  \<comment> \<open>the exit test of the polling loop at time \<open>now\<close>, with
      \<open>waitForNetworkIdlePageLoadTime\<close> given in milliseconds\<close>
  "networkStable idleMs now m = (pendingRequests m = {} \<and> now - lastActivity m \<ge> idleMs)"

section \<open>Scrolling (browser/page.ts)\<close>

text \<open>
  \<open>scrollDown\<close> and \<open>scrollUp\<close> build a script and have the page evaluate it. The outcome is
  what that script asks of \<open>window.scrollBy(0, dy)\<close>. An amount is a whole number of pixels
  here. In \<open>scrollUp\<close> the script text is a minus sign before the text of the amount: for a
  negative amount that is \<open>--\<close> before a literal, which is not an expression, and the
  evaluation fails.
\<close>

datatype scroll_outcome =
  NotConnected  \<comment> \<open>\<open>_puppeteerPage\<close> is null: nothing happens\<close>
| ScrollBy int  \<comment> \<open>\<open>window.scrollBy(0, dy)\<close> is evaluated\<close>
| ScriptSyntaxError  \<comment> \<open>the script does not parse; the call rejects\<close>

definition scrollDown :: "bool \<Rightarrow> int \<Rightarrow> int option \<Rightarrow> scroll_outcome" where
  \<comment> \<open>the arguments: is the page connected, \<open>window.innerHeight\<close>, the amount\<close>
  "scrollDown connected innerHeight amount =
     (if \<not> connected then NotConnected
      else (case amount of
              None \<Rightarrow> ScrollBy innerHeight
            | Some a \<Rightarrow> if a \<noteq> 0 then ScrollBy a else ScrollBy innerHeight))"

definition scrollUp :: "bool \<Rightarrow> int \<Rightarrow> int option \<Rightarrow> scroll_outcome" where
  "scrollUp connected innerHeight amount =
     (if \<not> connected then NotConnected
      else (case amount of
              None \<Rightarrow> ScrollBy (- innerHeight)
            | Some a \<Rightarrow>
                if a \<noteq> 0 then (if a < 0 then ScriptSyntaxError else ScrollBy (- a))
                else ScrollBy (- innerHeight)))"


section \<open>The page controller (browser/page.ts)\<close>

text \<open>
  The browser, the extraction collaborator of \<open>dom/service\<close> and the host's scripting
  interface are outside the program. Each call to them either returns a value or throws,
  and the \<open>world\<close> record says which, for every call the controller can make.
\<close>

datatype 'a outcome = Returns 'a | Throws string

datatype failure =
  Thrown string  \<comment> \<open>the call rejects with an \<open>Error\<close> of this message\<close>

datatype frame_ref =
  PageContext nat  \<comment> \<open>selectors are resolved in the page of this handle\<close>
| FrameContext nat  \<comment> \<open>selectors are resolved in this frame\<close>

record page_state =
  elementTree :: elem
  selectorMap :: "(nat \<times> elem) list"
  tabId :: nat
  url :: string
  title :: string
  screenshot :: "string option"
  pixelsAbove :: int
  pixelsBelow :: int

record dom_state =
  domElementTree :: elem
  domSelectorMap :: "(nat \<times> elem) list"

record config =
  highlightElements :: bool
  includeDynamicAttributes :: bool

record page =
  pageTabId :: nat  \<comment> \<open>\<open>_tabId\<close>\<close>
  browser :: bool  \<comment> \<open>\<open>_browser\<close> is not null\<close>
  puppeteerPage :: "nat option"  \<comment> \<open>\<open>_puppeteerPage\<close>: the document handle\<close>
  pageConfig :: config  \<comment> \<open>\<open>_config\<close>\<close>
  pageState :: page_state  \<comment> \<open>\<open>_state\<close>\<close>
  validWebPage :: bool  \<comment> \<open>\<open>_validWebPage\<close>\<close>

record script_params =
  paramId :: "string option"
  paramName :: "string option"
  paramAriaLabel :: "string option"
  paramTagName :: string
  paramCenter :: "(int \<times> int) option"

record world =
  evaluateProbe :: "nat \<Rightarrow> unit outcome"  \<comment> \<open>\<open>page.evaluate('1')\<close>\<close>
  browserPages :: "nat list outcome"  \<comment> \<open>\<open>browser.pages()\<close>\<close>
  removeHighlights :: "unit outcome"  \<comment> \<open>\<open>_removeHighlights(tabId)\<close>\<close>
  clickableElements :: "int \<Rightarrow> dom_state option outcome"
    \<comment> \<open>\<open>_getClickableElements(tabId, highlight, focusElement, expansion)\<close>\<close>
  screenshotOf :: "nat \<Rightarrow> string outcome"
    \<comment> \<open>the three calls inside the \<open>try\<close> of \<open>takeScreenshot\<close>, whose \<open>catch\<close> rethrows\<close>
  scrollInfo :: "(int \<times> int) outcome"  \<comment> \<open>\<open>_getScrollInfo(tabId)\<close>\<close>
  urlOf :: "nat \<Rightarrow> string"  \<comment> \<open>\<open>page.url()\<close>\<close>
  titleOf :: "nat \<Rightarrow> string outcome"  \<comment> \<open>\<open>page.title()\<close>\<close>
  matching :: "frame_ref \<Rightarrow> string \<Rightarrow> nat list outcome"
    \<comment> \<open>the elements of a frame or page that match a selector, in document order, or the
        exception that resolving the selector there throws\<close>
  contentFrame :: "nat \<Rightarrow> nat option outcome"  \<comment> \<open>\<open>frameElement.contentFrame()\<close>\<close>
  scrollWaitLocate :: "nat \<Rightarrow> unit outcome"
    \<comment> \<open>\<open>_scrollIntoViewIfNeeded(handle)\<close> as called by \<open>locateElement\<close>\<close>
  scrollWaitClick :: "nat \<Rightarrow> unit outcome"
    \<comment> \<open>\<open>_scrollIntoViewIfNeeded(handle)\<close> as called by \<open>clickElementNode\<close>\<close>
  nativeClick :: "nat \<Rightarrow> unit outcome"
    \<comment> \<open>\<open>element.click()\<close> raced against the timer of 2000 ms\<close>
  scriptClick :: "nat \<Rightarrow> unit outcome"  \<comment> \<open>\<open>element.evaluate(el => el.click())\<close>\<close>
  mouseMove :: "int \<times> int \<Rightarrow> unit outcome"
  mouseClick :: "int \<times> int \<Rightarrow> unit outcome"
  executeScript :: "script_params \<Rightarrow> (bool \<times> string option) option outcome"
    \<comment> \<open>\<open>chrome.scripting.executeScript\<close> with the lookup function: \<open>result[0]?.result\<close>, its
        \<open>success\<close> and \<open>error\<close>\<close>

definition dollar :: "world \<Rightarrow> frame_ref \<Rightarrow> string \<Rightarrow> nat option outcome" where
  \<comment> \<open>\<open>currentFrame.$(selector)\<close>: a handle of the first element that matches, null where
      none does, or an exception\<close>
  "dollar w currentFrame selector =
     (case matching w currentFrame selector of
        Throws e \<Rightarrow> Throws e
      | Returns [] \<Rightarrow> Returns None
      | Returns (first # others) \<Rightarrow> Returns (Some first))"

definition build_initial_state :: "nat option \<Rightarrow> string option \<Rightarrow> string option \<Rightarrow> page_state" where
  "build_initial_state tab u t =
     \<lparr>elementTree = Elem (Some ''root'') (Some []) [] None None None None None,
      selectorMap = [],
      tabId = (case tab of None \<Rightarrow> 0 | Some n \<Rightarrow> n),
      url = strOf u,
      title = strOf t,
      screenshot = None,
      pixelsAbove = 0,
      pixelsBelow = 0\<rparr>"

definition removeHighlight :: "world \<Rightarrow> page \<Rightarrow> unit outcome" where
  "removeHighlight w pg =
     (if highlightElements (pageConfig pg) \<and> validWebPage pg then removeHighlights w
      else Returns ())"

definition getClickableElements :: "world \<Rightarrow> page \<Rightarrow> int \<Rightarrow> dom_state option outcome" where
  "getClickableElements w pg focusElement =
     (if \<not> validWebPage pg then Returns None else clickableElements w focusElement)"

definition getScrollInfo :: "world \<Rightarrow> page \<Rightarrow> (int \<times> int) outcome" where
  "getScrollInfo w pg = (if \<not> validWebPage pg then Returns (0, 0) else scrollInfo w)"

definition takeScreenshot :: "world \<Rightarrow> page \<Rightarrow> string outcome" where
  "takeScreenshot w pg =
     (case puppeteerPage pg of
        None \<Rightarrow> Throws ''Puppeteer page is not connected''
      | Some h \<Rightarrow> screenshotOf w h)"

definition recoverPage :: "world \<Rightarrow> page \<Rightarrow> failure + page" where
  \<comment> \<open>the first \<open>try\<close> of \<open>_updateState\<close>: the probe, and in its \<open>catch\<close> the switch to
      another open document handle\<close>
  "recoverPage w pg =
     (let probe = (case puppeteerPage pg of
                     None \<Rightarrow> Throws ''page is null''
                   | Some h \<Rightarrow> evaluateProbe w h)
      in case probe of
           Returns _ \<Rightarrow> Inr pg
         | Throws _ \<Rightarrow>
             if browser pg then
               (case browserPages w of
                  Throws e \<Rightarrow> Inl (Thrown e)
                | Returns [] \<Rightarrow> Inl (Thrown ''Browser closed: no valid pages available'')
                | Returns (h # _) \<Rightarrow> Inr (pg\<lparr>puppeteerPage := Some h\<rparr>))
             else Inr pg)"

definition refreshState :: "world \<Rightarrow> bool \<Rightarrow> int \<Rightarrow> page \<Rightarrow> page_state \<times> page" where
  \<comment> \<open>the second \<open>try\<close> of \<open>_updateState\<close> with its \<open>catch\<close>: the state returned, which is
      the object \<open>this._state\<close>, and the controller afterwards\<close>
  "refreshState w useVision focusElement pg =
     (case removeHighlight w pg of
        Throws _ \<Rightarrow> (pageState pg, pg)
      | Returns _ \<Rightarrow>
     (case getClickableElements w pg focusElement of
        Throws _ \<Rightarrow> (pageState pg, pg)
      | Returns None \<Rightarrow> (pageState pg, pg)
      | Returns (Some content) \<Rightarrow>
     (case (if useVision then
              (case takeScreenshot w pg of Throws e \<Rightarrow> Throws e | Returns shot \<Rightarrow> Returns (Some shot))
            else Returns None) of
        Throws _ \<Rightarrow> (pageState pg, pg)
      | Returns shot \<Rightarrow>
     (case getScrollInfo w pg of
        Throws _ \<Rightarrow> (pageState pg, pg)
      | Returns (pxAbove, pxBelow) \<Rightarrow>
          (let st1 = (pageState pg)
                 \<lparr>elementTree := domElementTree content,
                  selectorMap := domSelectorMap content,
                  url := (case puppeteerPage pg of None \<Rightarrow> [] | Some h \<Rightarrow> urlOf w h)\<rparr>
           in case (case puppeteerPage pg of None \<Rightarrow> Returns [] | Some h \<Rightarrow> titleOf w h) of
                Throws _ \<Rightarrow> (st1, pg\<lparr>pageState := st1\<rparr>)
              | Returns t \<Rightarrow>
                  (let st2 = st1\<lparr>title := t, screenshot := shot,
                                  pixelsAbove := pxAbove, pixelsBelow := pxBelow\<rparr>
                   in (st2, pg\<lparr>pageState := st2\<rparr>)))))))"

definition updateState :: "world \<Rightarrow> bool \<Rightarrow> int \<Rightarrow> page \<Rightarrow> (failure + page_state) \<times> page" where
  \<comment> \<open>\<open>_updateState(useVision, focusElement)\<close>\<close>
  "updateState w useVision focusElement pg =
     (case recoverPage w pg of
        Inl err \<Rightarrow> (Inl err, pg)
      | Inr pg1 \<Rightarrow>
          (case refreshState w useVision focusElement pg1 of (st, pg2) \<Rightarrow> (Inr st, pg2)))"

definition getState :: "world \<Rightarrow> page \<Rightarrow> (failure + page_state) \<times> page" where
  \<comment> \<open>\<open>waitForPageAndFramesLoad\<close> catches what its wait throws and touches no field\<close>
  "getState w pg =
     (if \<not> validWebPage pg then (Inr (build_initial_state (Some (pageTabId pg)) None None), pg)
      else updateState w True (- 1) pg)"


subsection \<open>locateElement\<close>

text \<open>
  The result of \<open>locateElement\<close> comes with the list of the calls of \<open>$\<close> it made, in
  order: the frame or page asked, and the selector.
\<close>

fun parents :: "elem \<Rightarrow> elem list" where
  \<comment> \<open>the loop \<open>while (current.parent)\<close>: the ancestors, the nearest first\<close>
  "parents (Elem t x a i v p s None) = []"
| "parents (Elem t x a i v p s (Some up)) = up # parents up"

definition iframes :: "elem \<Rightarrow> elem list" where
  \<comment> \<open>\<open>parents.reverse().filter(item => item.tagName === 'iframe')\<close>\<close>
  "iframes el = filter (\<lambda>item. tagName item = Some ''iframe'') (rev (parents el))"

fun enterFrames ::
  "world \<Rightarrow> bool \<Rightarrow> elem list \<Rightarrow> frame_ref
     \<Rightarrow> (failure + frame_ref option) \<times> (frame_ref \<times> string) list" where
  \<comment> \<open>\<open>for (const parent of iframes)\<close> from \<open>currentFrame\<close>: the frame reached, or \<open>None\<close>
      where the loop returns null, or what a call threw\<close>
  "enterFrames w incl [] currentFrame = (Inr (Some currentFrame), [])"
| "enterFrames w incl (up # rest) currentFrame =
     (let cssSelector = enhancedCssSelectorForElement incl up in
      case dollar w currentFrame cssSelector of
        Throws e \<Rightarrow> (Inl (Thrown e), [(currentFrame, cssSelector)])
      | Returns None \<Rightarrow> (Inr None, [(currentFrame, cssSelector)])
      | Returns (Some frameElement) \<Rightarrow>
          (case contentFrame w frameElement of
             Throws e \<Rightarrow> (Inl (Thrown e), [(currentFrame, cssSelector)])
           | Returns None \<Rightarrow> (Inr None, [(currentFrame, cssSelector)])
           | Returns (Some frame) \<Rightarrow>
               (case enterFrames w incl rest (FrameContext frame) of
                  (r, calls) \<Rightarrow> (r, (currentFrame, cssSelector) # calls))))"

definition attempt :: "world \<Rightarrow> frame_ref \<Rightarrow> string \<Rightarrow> nat option" where
  \<comment> \<open>one \<open>try\<close> block of a strategy: the handle it returns, or \<open>None\<close> where control
      falls through to the next strategy (no element, or an exception that is caught,
      also the one of the scroll wait)\<close>
  "attempt w currentFrame selector =
     (case dollar w currentFrame selector of
        Throws _ \<Rightarrow> None
      | Returns None \<Rightarrow> None
      | Returns (Some handle) \<Rightarrow>
          (case scrollWaitLocate w handle of Throws _ \<Rightarrow> None | Returns _ \<Rightarrow> Some handle))"

definition strategy5 :: "world \<Rightarrow> frame_ref \<Rightarrow> elem \<Rightarrow> string list \<Rightarrow> nat option \<times> string list" where
  \<comment> \<open>from strategy 5 to the final \<open>return null\<close>; the last argument lists the selectors
      asked so far\<close>
  "strategy5 w currentFrame element asked =
     (if truthy (attr element ''aria-label'') \<and> truthy (tagName element) then
        (let ariaSelector = strOf (tagName element) @ ''[aria-label='' @ [CHR 0x22]
               @ strOf (attr element ''aria-label'') @ [CHR 0x22] @ '']''
         in (attempt w currentFrame ariaSelector, asked @ [ariaSelector]))
      else (None, asked))"

definition strategy4 :: "world \<Rightarrow> frame_ref \<Rightarrow> elem \<Rightarrow> string list \<Rightarrow> nat option \<times> string list" where
  "strategy4 w currentFrame element asked =
     (if truthy (attr element ''name'') \<and> truthy (tagName element) then
        (let nameSelector = strOf (tagName element) @ ''[name='' @ [CHR 0x22]
               @ strOf (attr element ''name'') @ [CHR 0x22] @ '']''
         in case attempt w currentFrame nameSelector of
              Some handle \<Rightarrow> (Some handle, asked @ [nameSelector])
            | None \<Rightarrow> strategy5 w currentFrame element (asked @ [nameSelector]))
      else strategy5 w currentFrame element asked)"

definition strategy3 :: "world \<Rightarrow> frame_ref \<Rightarrow> elem \<Rightarrow> string list \<Rightarrow> nat option \<times> string list" where
  "strategy3 w currentFrame element asked =
     (if truthy (attr element ''id'') then
        (let idSelector = ''#'' @ strOf (attr element ''id'')
         in case attempt w currentFrame idSelector of
              Some handle \<Rightarrow> (Some handle, asked @ [idSelector])
            | None \<Rightarrow> strategy4 w currentFrame element (asked @ [idSelector]))
      else strategy4 w currentFrame element asked)"

definition strategy2 :: "world \<Rightarrow> frame_ref \<Rightarrow> elem \<Rightarrow> string list \<Rightarrow> nat option \<times> string list" where
  "strategy2 w currentFrame element asked =
     (if truthy (xpath element) then
        (let xpathSelector = ''xpath/'' @ strOf (xpath element)
         in case attempt w currentFrame xpathSelector of
              Some handle \<Rightarrow> (Some handle, asked @ [xpathSelector])
            | None \<Rightarrow> strategy3 w currentFrame element (asked @ [xpathSelector]))
      else strategy3 w currentFrame element asked)"

definition strategy1 :: "world \<Rightarrow> frame_ref \<Rightarrow> elem \<Rightarrow> string \<Rightarrow> nat option \<times> string list" where
  "strategy1 w currentFrame element cssSelector =
     (case attempt w currentFrame cssSelector of
        Some handle \<Rightarrow> (Some handle, [cssSelector])
      | None \<Rightarrow> strategy2 w currentFrame element [cssSelector])"

definition locateElement ::
  "world \<Rightarrow> page \<Rightarrow> elem \<Rightarrow> (failure + nat option) \<times> (frame_ref \<times> string) list" where
  "locateElement w pg element =
     (case puppeteerPage pg of
        None \<Rightarrow> (Inr None, [])
      | Some h \<Rightarrow>
          (case enterFrames w (includeDynamicAttributes (pageConfig pg)) (iframes element)
                  (PageContext h) of
             (Inl err, calls) \<Rightarrow> (Inl err, calls)
           | (Inr None, calls) \<Rightarrow> (Inr None, calls)
           | (Inr (Some currentFrame), calls) \<Rightarrow>
               (case strategy1 w currentFrame element
                       (enhancedCssSelectorForElement (includeDynamicAttributes (pageConfig pg))
                          element) of
                  (r, asked) \<Rightarrow> (Inr r, calls @ map (Pair currentFrame) asked))))"

text \<open>
  The ladder as the specification words it: an ordered list of strategies, tried in
  sequence, stopping at the first success.
\<close>

definition strategies :: "elem \<Rightarrow> string \<Rightarrow> string list" where
  \<comment> \<open>synthesized selector, raw XPath, exact id, \<open>tag[name=...]\<close>, \<open>tag[aria-label=...]\<close>:
      each one where the node has what it needs\<close>
  "strategies element cssSelector =
     [cssSelector]
     @ (if truthy (xpath element) then [''xpath/'' @ strOf (xpath element)] else [])
     @ (if truthy (attr element ''id'') then [''#'' @ strOf (attr element ''id'')] else [])
     @ (if truthy (attr element ''name'') \<and> truthy (tagName element) then
          [strOf (tagName element) @ ''[name='' @ [CHR 0x22] @ strOf (attr element ''name'')
             @ [CHR 0x22] @ '']'']
        else [])
     @ (if truthy (attr element ''aria-label'') \<and> truthy (tagName element) then
          [strOf (tagName element) @ ''[aria-label='' @ [CHR 0x22]
             @ strOf (attr element ''aria-label'') @ [CHR 0x22] @ '']'']
        else [])"

fun firstSuccess :: "('a \<Rightarrow> 'b option) \<Rightarrow> 'a list \<Rightarrow> 'b option \<times> 'a list" where
  \<comment> \<open>the result of the first step that succeeds, and the steps tried, that one the last\<close>
  "firstSuccess f [] = (None, [])"
| "firstSuccess f (s # rest) =
     (case f s of
        Some r \<Rightarrow> (Some r, [s])
      | None \<Rightarrow> (case firstSuccess f rest of (r, tried) \<Rightarrow> (r, s # tried)))"

subsection \<open>clickElementNode\<close>














section \<open>A sample page and world\<close>

text \<open>
  The concrete inputs of the examples below: an attached page with a snapshot already
  stored, a button inside an iframe, and a world in which the browser answers every call,
  finds no element, and only the mouse can click; then variations of that world.
\<close>

definition sampleRoot :: elem where
  "sampleRoot = Elem (Some ''root'') (Some []) [] None None None None None"

definition sampleFrame :: elem where
  "sampleFrame =
     Elem (Some ''iframe'') (Some ''html/body/iframe'') [(''id'', ''pay'')] None None None None
       (Some sampleRoot)"

definition sampleButton :: elem where
  "sampleButton =
     Elem (Some ''button'') (Some ''html/body/button'') [(''id'', ''go''), (''name'', ''submit'')]
       (Some 5) (Some (120, 45)) (Some (120, 645)) (Some (0, 600)) (Some sampleFrame)"

definition sampleState :: page_state where
  "sampleState =
     \<lparr>elementTree = sampleRoot, selectorMap = [(5, sampleButton)], tabId = 7,
      url = ''https://example.org/old'', title = ''Old title'', screenshot = Some ''old-shot'',
      pixelsAbove = 10, pixelsBelow = 20\<rparr>"

definition samplePage :: page where
  "samplePage =
     \<lparr>pageTabId = 7, browser = True, puppeteerPage = Some 1,
      pageConfig = \<lparr>highlightElements = True, includeDynamicAttributes = True\<rparr>,
      pageState = sampleState, validWebPage = True\<rparr>"

definition sampleWorld :: world where
  "sampleWorld =
     \<lparr>evaluateProbe = (\<lambda>h. Returns ()),
      browserPages = Returns [1],
      removeHighlights = Returns (),
      clickableElements = (\<lambda>focusElement. Returns None),
      screenshotOf = (\<lambda>h. Returns ''new-shot''),
      scrollInfo = Returns (300, 400),
      urlOf = (\<lambda>h. ''https://example.org/new''),
      titleOf = (\<lambda>h. Returns ''New title''),
      matching = (\<lambda>scope selector. Returns []),
      contentFrame = (\<lambda>h. Returns None),
      scrollWaitLocate = (\<lambda>h. Returns ()),
      scrollWaitClick = (\<lambda>h. Returns ()),
      nativeClick = (\<lambda>h. Throws ''Click timeout''),
      scriptClick = (\<lambda>h. Throws ''Node is detached from document''),
      mouseMove = (\<lambda>point. Returns ()),
      mouseClick = (\<lambda>point. Returns ()),
      executeScript = (\<lambda>params. Returns (Some (False, Some ''Element not found via any selector'')))\<rparr>"

definition sampleFreeButton :: elem where
  \<comment> \<open>the same button outside any frame\<close>
  "sampleFreeButton =
     Elem (Some ''button'') (Some ''html/body/button'') [(''id'', ''go''), (''name'', ''submit'')]
       (Some 5) (Some (120, 45)) (Some (120, 645)) (Some (0, 600)) None"

definition sampleContent :: dom_state where
  \<comment> \<open>a new snapshot\<close>
  "sampleContent =
     \<lparr>domElementTree = Elem (Some ''root'') (Some []) [(''lang'', ''en'')] None None None None None,
      domSelectorMap = [(5, sampleFreeButton)]\<rparr>"

definition staleTitleWorld :: world where
  \<comment> \<open>the extraction succeeds, and the page navigates away before its title is read\<close>
  "staleTitleWorld =
     sampleWorld\<lparr>clickableElements := (\<lambda>focusElement. Returns (Some sampleContent)),
                  titleOf := (\<lambda>h. Throws ''Execution context was destroyed'')\<rparr>"

definition framedWorld :: world where
  \<comment> \<open>the iframe resolves to frame 2; there the synthesized selector finds an element that
      never settles in the viewport, and the raw XPath finds the button\<close>
  "framedWorld =
     sampleWorld\<lparr>matching := (\<lambda>scope selector.
                     if scope = PageContext 1 \<and> selector = ''iframe#pay'' then Returns [7]
                     else if scope = FrameContext 2 \<and> selector = ''button#go'' then Returns [8]
                     else if scope = FrameContext 2 \<and> selector = ''xpath/html/body/button''
                       then Returns [9]
                     else Returns []),
                  contentFrame := (\<lambda>h. if h = 7 then Returns (Some 2) else Returns None),
                  scrollWaitLocate := (\<lambda>h. if h = 8
                     then Throws ''Timed out while trying to scroll element into view''
                     else Returns ())\<rparr>"

definition twinWorld :: world where
  \<comment> \<open>two elements of the page match the synthesized selector of the button, and the raw
      XPath matches the second of them alone\<close>
  "twinWorld =
     sampleWorld\<lparr>matching := (\<lambda>scope selector.
                     if scope = PageContext 1 \<and> selector = ''button#go'' then Returns [9, 10]
                     else if scope = PageContext 1 \<and> selector = ''xpath/html/body/button''
                       then Returns [10]
                     else Returns [])\<rparr>"

definition brokenFrameWorld :: world where
  \<comment> \<open>resolving the selector of the iframe throws\<close>
  "brokenFrameWorld =
     sampleWorld\<lparr>matching := (\<lambda>scope selector.
                     if scope = PageContext 1 \<and> selector = ''iframe#pay''
                       then Throws ''Protocol error''
                     else Returns [])\<rparr>"




definition sampleOldHash :: hashed where
  "sampleOldHash = \<lparr>branchPathHash = ''b0'', attributesHash = ''a0'', xpathHash = ''x''\<rparr>"

definition sampleNewHash :: hashed where
  "sampleNewHash = \<lparr>branchPathHash = ''b0'', attributesHash = ''a1'', xpathHash = ''x''\<rparr>"

definition abandonedCache :: hash_cache where
  \<comment> \<open>a fresh node after \<open>hash()\<close>, then \<open>clearHashCache()\<close> while computation 0 runs, then
      \<open>hash()\<close> again: computations 0 and 1 are both running, and the stored promise follows
      computation 1\<close>
  "abandonedCache = snd (hash (clearHashCache (snd (hash freshCache))))"

section \<open>Selector synthesis: what is proved\<close>

subsection \<open>Auxiliary facts about class names\<close>

lemma identStart_not_space: "isIdentStart c \<Longrightarrow> \<not> isSpace c"
  unfolding isIdentStart_def isSpace_def by auto

lemma identChar_not_space: "isIdentChar c \<Longrightarrow> \<not> isSpace c"
  unfolding isIdentChar_def isIdentStart_def isDigit_def isSpace_def by auto

lemma dropWhile_none: "\<forall>c \<in> set xs. \<not> P c \<Longrightarrow> dropWhile P xs = xs"
  by (cases xs) auto

lemma trim_no_space: "\<forall>c \<in> set s. \<not> isSpace c \<Longrightarrow> trim s = s"
  unfolding trim_def by (simp add: dropWhile_none)

lemma validIdent_trim: "validIdent c \<Longrightarrow> trim c \<noteq> []"
proof -
  assume v: "validIdent c"
  then obtain a cs where c: "c = a # cs" and a: "isIdentStart a" and cs: "list_all isIdentChar cs"
    unfolding validIdent_def by (cases c) auto
  have "\<forall>x \<in> set c. \<not> isSpace x"
    using c a cs identStart_not_space identChar_not_space by (auto simp: list_all_iff)
  then have "trim c = c" by (rule trim_no_space)
  then show ?thesis using c by simp
qed

lemma classLoop_spec:
  "classLoop cs n sel = sel @ concat (map (\<lambda>c. ''.'' @ c) (take (2 - n) (filter stableClass cs)))"
proof (induction cs arbitrary: n sel)
  case Nil
  then show ?case by simp
next
  case (Cons c cs)
  show ?case
  proof (cases "stableClass c")
    case True
    then have t: "trim c \<noteq> []" and d: "\<not> digitRun3 c" and l: "length c \<le> 20" and v: "validIdent c"
      using validIdent_trim unfolding stableClass_def by auto
    show ?thesis
    proof (cases "n < 2")
      case True
      then have "2 - n = Suc (2 - Suc n)" by simp
      then show ?thesis using t d l v \<open>stableClass c\<close> True Cons.IH[of "Suc n"] by simp
    next
      case False
      then show ?thesis using t d l v \<open>stableClass c\<close> Cons.IH[of n] by simp
    qed
  next
    case False
    then show ?thesis using Cons.IH[of n] unfolding stableClass_def by auto
  qed
qed

subsection \<open>Nodes without an xpath\<close>

text \<open>
  Claim C10. For every element whose xpath is null or the empty string,
  \<open>enhancedCssSelectorForElement\<close> returns the empty string and applies no synthesis rule,
  whatever the attributes of the element are: an id of identifier syntax or a test attribute
  changes nothing. The result is not the \<open>highlight-index\<close> sentinel either.
\<close>

theorem no_xpath_empty_selector:
  assumes "xpath el = None \<or> xpath el = Some []"
  shows "enhancedCssSelectorForElement incl el = []
         \<and> enhancedCssSelectorForElement incl el \<noteq> (sentinelSelector el)"
proof -
  have "\<not> truthy (xpath el)" using assms unfolding truthy_def by auto
  then have "enhancedCssSelectorForElement incl el = []"
    unfolding enhancedCssSelectorForElement_def by simp
  moreover have "sentinelSelector el \<noteq> []" unfolding sentinelSelector_def tagOrStar_def by simp
  ultimately show ?thesis by auto
qed

text \<open>The theorem at an \<open>input\<close> with the empty xpath, a well-formed id and a test attribute.\<close>

theorem no_xpath_empty_selector_witness:
  "xpath (Elem (Some ''input'') (Some []) [(''id'', ''search-box''), (''data-testid'', ''q'')]
            (Some 3) None None None None) = Some []
   \<and> validIdent ''search-box''
   \<and> enhancedCssSelectorForElement True
        (Elem (Some ''input'') (Some []) [(''id'', ''search-box''), (''data-testid'', ''q'')]
           (Some 3) None None None None) = []"
  using no_xpath_empty_selector
    [of "Elem (Some ''input'') (Some []) [(''id'', ''search-box''), (''data-testid'', ''q'')]
           (Some 3) None None None None" True]
  by (simp add: validIdent_def isIdentStart_def isIdentChar_def isDigit_def)

subsection \<open>The first three rules\<close>

text \<open>
  Claim C4 says that the name rule (and likewise the test-attribute rule) applies as soon
  as the attribute is present. The source tests the value of the attribute for truthiness,
  so an attribute that is present with the empty string as its value does not take part.
  An \<open>input\<close> with \<open>name=""\<close>, no id and no test attribute gets the positional selector of
  its xpath, not \<open>input[name=""]\<close>.
\<close>

theorem name_rule_empty_value_counterexample:
  "truthy (xpath (Elem (Some ''input'') (Some ''html/body/input'') [(''name'', [])]
                    None None None None None))
   \<and> attr (Elem (Some ''input'') (Some ''html/body/input'') [(''name'', [])]
             None None None None None) ''id'' = None
   \<and> attr (Elem (Some ''input'') (Some ''html/body/input'') [(''name'', [])]
             None None None None None) ''name'' = Some []
   \<and> tagOrStar (Elem (Some ''input'') (Some ''html/body/input'') [(''name'', [])]
             None None None None None) \<in> set FORM_TAGS
   \<and> enhancedCssSelectorForElement True
        (Elem (Some ''input'') (Some ''html/body/input'') [(''name'', [])]
           None None None None None) = ''html > body > input''
   \<and> enhancedCssSelectorForElement True
        (Elem (Some ''input'') (Some ''html/body/input'') [(''name'', [])]
           None None None None None) \<noteq> (''input[name='' @ [CHR 0x22, CHR 0x22] @ '']'')"
  by (simp add: enhancedCssSelectorForElement_def truthy_def attr_def tagOrStar_def strOf_def
      FORM_TAGS_def testId_def orElse_def addClasses_def KEY_ATTRIBUTES_def
      convertSimpleXPathToCssSelector_def stripLeadingSlash_def convertPart_def joinWith_def)

text \<open>
  Claim C4, amended. For every element with a non-null, non-empty xpath the first matching
  rule applies, in this order. If the id attribute is non-empty and matches
  \<open>[a-zA-Z_][a-zA-Z0-9_-]*\<close>, the result is exactly \<open>tag#id\<close>. Else, if one of
  \<open>data-testid\<close>, \<open>data-qa\<close>, \<open>data-cy\<close> has a non-empty value and
  \<open>includeDynamicAttributes\<close> is enabled, the result is \<open>tag[attr="value"]\<close> for the first of
  them that has one. Else, if the name attribute has a non-empty value and the tag is one of
  input, textarea, select, button, the result is exactly \<open>tag[name="value"]\<close>. Here \<open>tag\<close> is
  the tag name of the element, or \<open>*\<close> where it has none.
\<close>

theorem selector_rules_in_order:
  assumes xp: "truthy (xpath el)"
  shows "(truthy (attr el ''id'') \<and> validIdent (strOf (attr el ''id'')) \<longrightarrow>
            enhancedCssSelectorForElement incl el
              = (tagOrStar el @ ''#'' @ strOf (attr el ''id'')))
       \<and> (\<not> (truthy (attr el ''id'') \<and> validIdent (strOf (attr el ''id'')))
            \<and> (\<exists>a \<in> set TEST_ATTRIBUTES. truthy (attr el a)) \<and> incl \<longrightarrow>
            (\<exists>a \<in> set TEST_ATTRIBUTES. \<exists>v. attr el a = Some v \<and> v \<noteq> []
               \<and> (\<forall>b \<in> set (takeWhile (\<lambda>b. b \<noteq> a) TEST_ATTRIBUTES). \<not> truthy (attr el b))
               \<and> enhancedCssSelectorForElement incl el
                   = (tagOrStar el @ ''['' @ a @ ''='' @ [CHR 0x22] @ v @ [CHR 0x22] @ '']'')))
       \<and> (\<not> (truthy (attr el ''id'') \<and> validIdent (strOf (attr el ''id'')))
            \<and> \<not> ((\<exists>a \<in> set TEST_ATTRIBUTES. truthy (attr el a)) \<and> incl)
            \<and> truthy (attr el ''name'') \<and> tagOrStar el \<in> set FORM_TAGS \<longrightarrow>
            enhancedCssSelectorForElement incl el
              = (tagOrStar el @ ''[name='' @ [CHR 0x22] @ strOf (attr el ''name'')
                        @ [CHR 0x22] @ '']''))"
proof -
  have t: "truthy (testId el) \<longleftrightarrow> (\<exists>a \<in> set TEST_ATTRIBUTES. truthy (attr el a))"
    unfolding testId_def orElse_def TEST_ATTRIBUTES_def by auto
  have r1: "truthy (attr el ''id'') \<and> validIdent (strOf (attr el ''id'')) \<longrightarrow>
            enhancedCssSelectorForElement incl el
              = (tagOrStar el @ ''#'' @ strOf (attr el ''id''))"
    using xp unfolding enhancedCssSelectorForElement_def by (simp add: Let_def)
  have r2: "\<not> (truthy (attr el ''id'') \<and> validIdent (strOf (attr el ''id'')))
            \<and> (\<exists>a \<in> set TEST_ATTRIBUTES. truthy (attr el a)) \<and> incl \<longrightarrow>
            (\<exists>a \<in> set TEST_ATTRIBUTES. \<exists>v. attr el a = Some v \<and> v \<noteq> []
               \<and> (\<forall>b \<in> set (takeWhile (\<lambda>b. b \<noteq> a) TEST_ATTRIBUTES). \<not> truthy (attr el b))
               \<and> enhancedCssSelectorForElement incl el
                   = (tagOrStar el @ ''['' @ a @ ''='' @ [CHR 0x22] @ v @ [CHR 0x22] @ '']''))"
  proof (intro impI)
    assume h: "\<not> (truthy (attr el ''id'') \<and> validIdent (strOf (attr el ''id'')))
            \<and> (\<exists>a \<in> set TEST_ATTRIBUTES. truthy (attr el a)) \<and> incl"
    then have tt: "truthy (testId el)" using t by simp
    have res: "enhancedCssSelectorForElement incl el
          = (tagOrStar el @ ''['' @ testAttrName el @ ''='' @ [CHR 0x22] @ strOf (testId el)
                   @ [CHR 0x22] @ '']'')"
      using xp h tt unfolding enhancedCssSelectorForElement_def by (auto simp add: Let_def)
    have nm: "testAttrName el \<in> set TEST_ATTRIBUTES
        \<and> attr el (testAttrName el) = Some (strOf (testId el)) \<and> strOf (testId el) \<noteq> []
        \<and> (\<forall>b \<in> set (takeWhile (\<lambda>b. b \<noteq> testAttrName el) TEST_ATTRIBUTES). \<not> truthy (attr el b))"
      using tt unfolding testAttrName_def testId_def orElse_def TEST_ATTRIBUTES_def
        truthy_def strOf_def
      by (auto split: option.splits if_splits)
    show "\<exists>a \<in> set TEST_ATTRIBUTES. \<exists>v. attr el a = Some v \<and> v \<noteq> []
               \<and> (\<forall>b \<in> set (takeWhile (\<lambda>b. b \<noteq> a) TEST_ATTRIBUTES). \<not> truthy (attr el b))
               \<and> enhancedCssSelectorForElement incl el
                   = (tagOrStar el @ ''['' @ a @ ''='' @ [CHR 0x22] @ v @ [CHR 0x22] @ '']'')"
      using res nm by blast
  qed
  have r3: "\<not> (truthy (attr el ''id'') \<and> validIdent (strOf (attr el ''id'')))
            \<and> \<not> ((\<exists>a \<in> set TEST_ATTRIBUTES. truthy (attr el a)) \<and> incl)
            \<and> truthy (attr el ''name'') \<and> tagOrStar el \<in> set FORM_TAGS \<longrightarrow>
            enhancedCssSelectorForElement incl el
              = (tagOrStar el @ ''[name='' @ [CHR 0x22] @ strOf (attr el ''name'')
                        @ [CHR 0x22] @ '']'')"
    using xp t unfolding enhancedCssSelectorForElement_def by (auto simp add: Let_def)
  show ?thesis using r1 r2 r3 by blast
qed

text \<open>
  The three rules at work: \<open>input#search-box\<close>; a \<open>div\<close> whose id is no identifier and
  whose \<open>data-testid\<close> is empty gets \<open>div[data-qa="go"]\<close>; \<open>input[name="q"]\<close> with no id.
\<close>

theorem selector_rules_in_order_witness:
  "truthy (xpath (Elem (Some ''input'') (Some ''html/body/input'') [(''id'', ''search-box'')]
                    None None None None None))
   \<and> validIdent ''search-box''
   \<and> enhancedCssSelectorForElement True
        (Elem (Some ''input'') (Some ''html/body/input'') [(''id'', ''search-box'')]
           None None None None None) = ''input#search-box''
   \<and> truthy (attr (Elem (Some ''div'') (Some ''html/body/div'')
                     [(''id'', ''9x''), (''data-testid'', []), (''data-qa'', ''go''), (''name'', ''n'')]
                     None None None None None) ''data-qa'')
   \<and> \<not> validIdent ''9x''
   \<and> enhancedCssSelectorForElement True
        (Elem (Some ''div'') (Some ''html/body/div'')
           [(''id'', ''9x''), (''data-testid'', []), (''data-qa'', ''go''), (''name'', ''n'')]
           None None None None None) = (''div[data-qa='' @ [CHR 0x22] @ ''go'' @ [CHR 0x22] @ '']'')
   \<and> truthy (attr (Elem (Some ''input'') (Some ''html/body/input'') [(''name'', ''q'')]
                     None None None None None) ''name'')
   \<and> enhancedCssSelectorForElement True
        (Elem (Some ''input'') (Some ''html/body/input'') [(''name'', ''q'')]
           None None None None None) = (''input[name='' @ [CHR 0x22] @ ''q'' @ [CHR 0x22] @ '']'')"
  using selector_rules_in_order
    [of "Elem (Some ''input'') (Some ''html/body/input'') [(''id'', ''search-box'')]
           None None None None None" True]
    selector_rules_in_order
    [of "Elem (Some ''div'') (Some ''html/body/div'')
           [(''id'', ''9x''), (''data-testid'', []), (''data-qa'', ''go''), (''name'', ''n'')]
           None None None None None" True]
    selector_rules_in_order
    [of "Elem (Some ''input'') (Some ''html/body/input'') [(''name'', ''q'')]
           None None None None None" True]
  by (simp add: truthy_def attr_def strOf_def tagOrStar_def validIdent_def isIdentStart_def
      isIdentChar_def isDigit_def TEST_ATTRIBUTES_def FORM_TAGS_def)

subsection \<open>The classes of rule 4\<close>

text \<open>
  Claim C5. In rule 4, reached when neither the id rule nor the test-attribute rule nor the
  name rule applied, and with dynamic attributes enabled, the classes of the element are
  scanned in order; a class is rejected if it contains three or more digits in a row, is
  longer than 20 characters, or is not an identifier; of the others the first two, and no
  more, are appended to the tag as \<open>.class\<close>. The attribute loop and the xpath fallback
  then work on that selector. For the classes \<open>btn\<close> and \<open>btn-1234567\<close> only \<open>.btn\<close> is
  kept.
\<close>

theorem rule4_classes:
  assumes "truthy (xpath el)"
    and "\<not> (truthy (attr el ''id'') \<and> validIdent (strOf (attr el ''id'')))"
    and "\<not> truthy (testId el)"
    and "\<not> (truthy (attr el ''name'') \<and> tagOrStar el \<in> set FORM_TAGS)"
    and "truthy (attr el ''class'')"
  shows "\<exists>kept. kept = take 2 (filter stableClass (splitSpaces (strOf (attr el ''class''))))
           \<and> length kept \<le> 2
           \<and> addClasses True el (tagOrStar el) = tagOrStar el @ concat (map (\<lambda>c. ''.'' @ c) kept)
           \<and> enhancedCssSelectorForElement True el =
               (let cssSelector = attributeLoop (attributes el)
                                    (tagOrStar el @ concat (map (\<lambda>c. ''.'' @ c) kept))
                in if cssSelector = tagOrStar el
                   then convertSimpleXPathToCssSelector (strOf (xpath el))
                   else cssSelector)"
proof -
  have a: "addClasses True el (tagOrStar el)
        = tagOrStar el @ concat (map (\<lambda>c. ''.'' @ c)
             (take 2 (filter stableClass (splitSpaces (strOf (attr el ''class''))))))"
    using assms(5) unfolding addClasses_def by (simp add: classLoop_spec)
  have "enhancedCssSelectorForElement True el =
          (let cssSelector = attributeLoop (attributes el) (addClasses True el (tagOrStar el))
           in if cssSelector = tagOrStar el
              then convertSimpleXPathToCssSelector (strOf (xpath el))
              else cssSelector)"
    using assms(1-4) unfolding enhancedCssSelectorForElement_def by (auto simp add: Let_def)
  then show ?thesis using a by simp
qed

text \<open>The theorem at a \<open>button\<close> of class \<open>btn btn-1234567\<close>.\<close>

theorem rule4_classes_witness:
  "truthy (attr (Elem (Some ''button'') (Some ''html/body/button'') [(''class'', ''btn btn-1234567'')]
                   None None None None None) ''class'')
   \<and> splitSpaces ''btn btn-1234567'' = [''btn'', ''btn-1234567'']
   \<and> stableClass ''btn'' \<and> digitRun3 ''btn-1234567'' \<and> \<not> stableClass ''btn-1234567''
   \<and> enhancedCssSelectorForElement True
        (Elem (Some ''button'') (Some ''html/body/button'') [(''class'', ''btn btn-1234567'')]
           None None None None None) = ''button.btn''"
  using rule4_classes
    [of "Elem (Some ''button'') (Some ''html/body/button'') [(''class'', ''btn btn-1234567'')]
           None None None None None"]
  by (simp add: truthy_def attr_def strOf_def tagOrStar_def validIdent_def isIdentStart_def
      isIdentChar_def isDigit_def isSpace_def FORM_TAGS_def testId_def orElse_def splitSpaces_def
      stableClass_def KEY_ATTRIBUTES_def)


section \<open>The memoised hash: what is proved\<close>

text \<open>
  Calls of \<open>hash()\<close> that follow one another with nothing in between behave as a
  single-flight cache: a cached value is returned as it is, callers that find a computation
  in flight join it, and one computation serves them all.
\<close>

lemma hashCalls_cached: "hashedValue c = Some v \<Longrightarrow> hashCalls n c = (replicate n (Value v), c)"
  by (induction n) (simp_all add: hash_def)

lemma hashCalls_in_flight:
  "hashedValue c = None \<Longrightarrow> hashPromise c = Some p \<Longrightarrow> hashCalls n c = (replicate n (Awaits p), c)"
  by (induction n) (simp_all add: hash_def)

lemma hashCalls_unset:
  assumes "hashedValue c = None" and "hashPromise c = None"
  shows "hashCalls (Suc n) c =
           (replicate (Suc n) (Awaits (invocations c)),
            c\<lparr>hashPromise := Some (invocations c), invocations := Suc (invocations c)\<rparr>)"
proof -
  let ?c1 = "c\<lparr>hashPromise := Some (invocations c), invocations := Suc (invocations c)\<rparr>"
  have h: "hash c = (Awaits (invocations c), ?c1)" using assms by (simp add: hash_def)
  have "hashedValue ?c1 = None" and "hashPromise ?c1 = Some (invocations c)" using assms by simp_all
  then have "hashCalls n ?c1 = (replicate n (Awaits (invocations c)), ?c1)"
    by (rule hashCalls_in_flight)
  then show ?thesis using h by simp
qed
lemma consecutive_calls_idempotent:
  "(hashedValue c = Some v \<longrightarrow> hashCalls n c = (replicate n (Value v), c))
   \<and> (hashedValue c0 = None \<and> hashPromise c0 = None \<longrightarrow>
        (case hashCalls (Suc m) c0 of (waiting, c1) \<Rightarrow>
           (case hashCalls n (hashResolved v c1) of (later, c2) \<Rightarrow>
              later = replicate n (Value v)
              \<and> hashedValue c2 = Some v
              \<and> invocations c2 = Suc (invocations c0))))"
proof (intro conjI impI)
  assume "hashedValue c = Some v"
  then show "hashCalls n c = (replicate n (Value v), c)" by (rule hashCalls_cached)
next
  assume a: "hashedValue c0 = None \<and> hashPromise c0 = None"
  let ?c1 = "c0\<lparr>hashPromise := Some (invocations c0), invocations := Suc (invocations c0)\<rparr>"
  have 1: "hashCalls (Suc m) c0 = (replicate (Suc m) (Awaits (invocations c0)), ?c1)"
    using a by (simp only: hashCalls_unset)
  have "hashedValue (hashResolved v ?c1) = Some v" by (simp add: hashResolved_def)
  then have 2: "hashCalls n (hashResolved v ?c1) = (replicate n (Value v), hashResolved v ?c1)"
    by (rule hashCalls_cached)
  show "case hashCalls (Suc m) c0 of (waiting, c1) \<Rightarrow>
           (case hashCalls n (hashResolved v c1) of (later, c2) \<Rightarrow>
              later = replicate n (Value v)
              \<and> hashedValue c2 = Some v
              \<and> invocations c2 = Suc (invocations c0))"
    by (simp only: 1 2 prod.case) (simp add: hashResolved_def)
qed

lemma consecutive_calls_share:
  "(hashedValue c = None \<and> hashPromise c = None \<longrightarrow>
      (case hashCalls (Suc n) c of (replies, c1) \<Rightarrow>
         replies = replicate (Suc n) (Awaits (invocations c))
         \<and> invocations c1 = Suc (invocations c)
         \<and> hashPromise c1 = Some (invocations c)
         \<and> (\<forall>r \<in> set replies. received (invocations c) v r = Some v)))
   \<and> (hashedValue c = None \<and> hashPromise c = Some p \<longrightarrow>
      (case hashCalls n c of (replies, c1) \<Rightarrow>
         replies = replicate n (Awaits p)
         \<and> invocations c1 = invocations c
         \<and> (\<forall>r \<in> set replies. received p v r = Some v)))"
proof (intro conjI impI)
  assume a: "hashedValue c = None \<and> hashPromise c = None"
  have 1: "hashCalls (Suc n) c =
           (replicate (Suc n) (Awaits (invocations c)),
            c\<lparr>hashPromise := Some (invocations c), invocations := Suc (invocations c)\<rparr>)"
    using a by (simp only: hashCalls_unset)
  show "case hashCalls (Suc n) c of (replies, c1) \<Rightarrow>
         replies = replicate (Suc n) (Awaits (invocations c))
         \<and> invocations c1 = Suc (invocations c)
         \<and> hashPromise c1 = Some (invocations c)
         \<and> (\<forall>r \<in> set replies. received (invocations c) v r = Some v)"
    by (simp only: 1 prod.case) (auto simp add: received_def)
next
  assume a: "hashedValue c = None \<and> hashPromise c = Some p"
  then have 1: "hashCalls n c = (replicate n (Awaits p), c)" by (simp only: hashCalls_in_flight)
  show "case hashCalls n c of (replies, c1) \<Rightarrow>
         replies = replicate n (Awaits p)
         \<and> invocations c1 = invocations c
         \<and> (\<forall>r \<in> set replies. received p v r = Some v)"
    by (simp only: 1 prod.case) (auto simp add: received_def)
qed

text \<open>
  Claim C6 says that once a hash computation of the node has completed, every later call
  of \<open>hash()\<close> with no \<open>clearHashCache\<close> in between returns the identical value, and that
  \<open>hashDomElement\<close> is invoked once. The \<open>.then\<close> callback of a computation stores its
  result whatever has happened since the computation started. After \<open>hash()\<close>,
  \<open>clearHashCache()\<close> while the computation runs, and \<open>hash()\<close> again, two computations
  run. The abandoned one resolves: its value is cached and the next \<open>hash()\<close> returns it.
  Then the second one resolves, to another value because the node was changed before the
  cache was cleared, and the next \<open>hash()\<close> returns that one. So two calls after a completed
  computation, with no \<open>clearHashCache\<close> between them, return two values, and
  \<open>hashDomElement\<close> was invoked twice.
\<close>

theorem stale_resolution_changes_value:
  "hashedValue abandonedCache = None
   \<and> hashPromise abandonedCache = Some 1
   \<and> invocations abandonedCache = 2
   \<and> hash (hashResolved sampleOldHash abandonedCache)
       = (Value sampleOldHash,
          \<lparr>hashedValue = Some sampleOldHash, hashPromise = None, invocations = 2\<rparr>)
   \<and> hash (hashResolved sampleNewHash (hashResolved sampleOldHash abandonedCache))
       = (Value sampleNewHash,
          \<lparr>hashedValue = Some sampleNewHash, hashPromise = None, invocations = 2\<rparr>)
   \<and> sampleOldHash \<noteq> sampleNewHash"
  by (simp add: abandonedCache_def freshCache_def hash_def clearHashCache_def hashResolved_def
      sampleOldHash_def sampleNewHash_def)

text \<open>
  Claim C9 says that calls of \<open>hash()\<close> made while no value is cached yet trigger exactly
  one computation, shared by every caller. The \<open>.catch\<close> callback of a computation clears
  \<open>_hashPromise\<close> whatever promise is stored there. After \<open>hash()\<close>, \<open>clearHashCache()\<close>
  while the computation runs, and \<open>hash()\<close> again, the second caller waits for
  computation 1. The abandoned computation 0 rejects and its callback drops the promise of
  computation 1. A third caller, arriving while the second still waits and nothing is
  cached, starts computation 2: two callers waiting at the same time follow two
  computations, and \<open>hashDomElement\<close> was invoked three times.
\<close>

theorem stale_rejection_splits_callers:
  "hash (clearHashCache (snd (hash freshCache))) = (Awaits 1, abandonedCache)
   \<and> hashedValue (hashRejected abandonedCache) = None
   \<and> hashPromise (hashRejected abandonedCache) = None
   \<and> hash (hashRejected abandonedCache)
       = (Awaits 2, \<lparr>hashedValue = None, hashPromise = Some 2, invocations = 3\<rparr>)"
  by (simp add: abandonedCache_def freshCache_def hash_def clearHashCache_def hashRejected_def)

section \<open>The network-idle monitor: what is proved\<close>

lemma startsWith_map: "startsWith s p \<Longrightarrow> startsWith (map f s) (map f p)"
  by (induction s p rule: startsWith.induct) simp_all

lemma includesStr_map: "includesStr s p \<Longrightarrow> includesStr (map f s) (map f p)"
proof (induction s)
  case Nil
  then show ?case by simp
next
  case (Cons c cs)
  then show ?case using startsWith_map[of "c # cs" p f] by auto
qed

lemma lowerChar_id: "c \<notin> set upperChars \<Longrightarrow> lowerChar c = c"
proof -
  assume a: "c \<notin> set upperChars"
  have "length upperChars = length lowerChars" by (simp add: upperChars_def lowerChars_def)
  then have "map_of (zip upperChars lowerChars) c = None"
    using a by (simp add: map_of_zip_is_None)
  then show ?thesis by (simp add: lowerChar_def)
qed

lemma patterns_lower_case:
  "\<forall>p \<in> set IGNORED_URL_PATTERNS. \<forall>c \<in> set p. c \<notin> set upperChars"
  by code_simp

lemma streaming_lower_case:
  "\<forall>p \<in> set STREAMING_CONTENT_TYPES. \<forall>c \<in> set p. c \<notin> set upperChars"
  by code_simp

lemma lower_pattern:
  "pattern \<in> set IGNORED_URL_PATTERNS \<Longrightarrow> map lowerChar pattern = pattern"
  using patterns_lower_case lowerChar_id by (simp add: map_idI)

lemma lower_streaming:
  "t \<in> set STREAMING_CONTENT_TYPES \<Longrightarrow> map lowerChar t = t"
  using streaming_lower_case lowerChar_id by (simp add: map_idI)

lemma lower_scheme: "map lowerChar ''data:'' = ''data:''" "map lowerChar ''blob:'' = ''blob:''"
  by code_simp+

lemma ignored_pattern_lower:
  assumes "pattern \<in> set IGNORED_URL_PATTERNS" and "includesStr u pattern"
  shows "includesStr (toLowerCase u) pattern"
  using includesStr_map[OF assms(2), of lowerChar] lower_pattern[OF assms(1)]
  by (simp add: toLowerCase_def)

lemma streaming_lower:
  assumes "t \<in> set STREAMING_CONTENT_TYPES" and "includesStr ct t"
  shows "includesStr (toLowerCase ct) t"
  using includesStr_map[OF assms(2), of lowerChar] lower_streaming[OF assms(1)]
  by (simp add: toLowerCase_def)

lemma scheme_lower:
  "startsWith u ''data:'' \<Longrightarrow> startsWith (toLowerCase u) ''data:''"
  "startsWith u ''blob:'' \<Longrightarrow> startsWith (toLowerCase u) ''blob:''"
  using startsWith_map[of u "''data:''" lowerChar] startsWith_map[of u "''blob:''" lowerChar]
    lower_scheme
  by (simp_all add: toLowerCase_def)

text \<open>
  Claim C7. The monitor never adds to its pending set a request whose URL contains a
  deny-listed substring such as \<open>doubleclick\<close>, nor a \<open>data:\<close> or \<open>blob:\<close> URL, nor a request
  of a resource type that is not relevant, nor a request whose headers say prefetch, video
  or audio: the handler leaves the monitor as it is. A response whose content type
  contains a streaming type, such as \<open>video/mp4\<close>, to a pending request removes the request
  from the pending set and does not touch the time of the last activity.
\<close>

theorem monitor_filters:
  "((\<exists>pattern \<in> set IGNORED_URL_PATTERNS. includesStr (requestUrl req) pattern)
      \<or> startsWith (requestUrl req) ''data:'' \<or> startsWith (requestUrl req) ''blob:''
      \<or> resourceType req \<notin> set RELEVANT_RESOURCE_TYPES
      \<or> map_of (requestHeaders req) ''purpose'' = Some ''prefetch''
      \<or> map_of (requestHeaders req) ''sec-fetch-dest'' = Some ''video''
      \<or> map_of (requestHeaders req) ''sec-fetch-dest'' = Some ''audio''
    \<longrightarrow> onRequest now req m = m)
   \<and> (responseRequest resp \<in> pendingRequests m
        \<and> map_of (responseHeaders resp) ''content-type'' = Some ct
        \<and> (\<exists>t \<in> set STREAMING_CONTENT_TYPES. includesStr ct t)
    \<longrightarrow> onResponse now resp m = m\<lparr>pendingRequests := pendingRequests m - {responseRequest resp}\<rparr>
        \<and> responseRequest resp \<notin> pendingRequests (onResponse now resp m)
        \<and> lastActivity (onResponse now resp m) = lastActivity m)"
proof (rule conjI)
  show "(\<exists>pattern \<in> set IGNORED_URL_PATTERNS. includesStr (requestUrl req) pattern)
      \<or> startsWith (requestUrl req) ''data:'' \<or> startsWith (requestUrl req) ''blob:''
      \<or> resourceType req \<notin> set RELEVANT_RESOURCE_TYPES
      \<or> map_of (requestHeaders req) ''purpose'' = Some ''prefetch''
      \<or> map_of (requestHeaders req) ''sec-fetch-dest'' = Some ''video''
      \<or> map_of (requestHeaders req) ''sec-fetch-dest'' = Some ''audio''
    \<longrightarrow> onRequest now req m = m"
  proof (rule impI)
    assume "(\<exists>pattern \<in> set IGNORED_URL_PATTERNS. includesStr (requestUrl req) pattern)
      \<or> startsWith (requestUrl req) ''data:'' \<or> startsWith (requestUrl req) ''blob:''
      \<or> resourceType req \<notin> set RELEVANT_RESOURCE_TYPES
      \<or> map_of (requestHeaders req) ''purpose'' = Some ''prefetch''
      \<or> map_of (requestHeaders req) ''sec-fetch-dest'' = Some ''video''
      \<or> map_of (requestHeaders req) ''sec-fetch-dest'' = Some ''audio''"
    then consider
        (pat) "\<exists>pattern \<in> set IGNORED_URL_PATTERNS.
                 includesStr (toLowerCase (requestUrl req)) pattern"
      | (scheme) "startsWith (toLowerCase (requestUrl req)) ''data:''
                   \<or> startsWith (toLowerCase (requestUrl req)) ''blob:''"
      | (rtype) "resourceType req \<notin> set RELEVANT_RESOURCE_TYPES"
      | (hdr) "map_of (requestHeaders req) ''purpose'' = Some ''prefetch''
        \<or> map_of (requestHeaders req) ''sec-fetch-dest'' = Some ''video''
        \<or> map_of (requestHeaders req) ''sec-fetch-dest'' = Some ''audio''"
      using ignored_pattern_lower scheme_lower by blast
    then show "onRequest now req m = m"
    proof cases
      case pat
      then show ?thesis unfolding onRequest_def by (simp add: Let_def)
    next
      case scheme
      then show ?thesis unfolding onRequest_def by (simp add: Let_def)
    next
      case rtype
      then show ?thesis unfolding onRequest_def by simp
    next
      case hdr
      then show ?thesis unfolding onRequest_def by (simp add: Let_def)
    qed
  qed
next
  show "responseRequest resp \<in> pendingRequests m
        \<and> map_of (responseHeaders resp) ''content-type'' = Some ct
        \<and> (\<exists>t \<in> set STREAMING_CONTENT_TYPES. includesStr ct t)
    \<longrightarrow> onResponse now resp m = m\<lparr>pendingRequests := pendingRequests m - {responseRequest resp}\<rparr>
        \<and> responseRequest resp \<notin> pendingRequests (onResponse now resp m)
        \<and> lastActivity (onResponse now resp m) = lastActivity m"
  proof (rule impI)
    assume h: "responseRequest resp \<in> pendingRequests m
        \<and> map_of (responseHeaders resp) ''content-type'' = Some ct
        \<and> (\<exists>t \<in> set STREAMING_CONTENT_TYPES. includesStr ct t)"
    then have s: "\<exists>t \<in> set STREAMING_CONTENT_TYPES. includesStr (toLowerCase ct) t"
      using streaming_lower by blast
    have eq: "onResponse now resp m
          = m\<lparr>pendingRequests := pendingRequests m - {responseRequest resp}\<rparr>"
      using h s unfolding onResponse_def by (simp add: Let_def)
    show "onResponse now resp m = m\<lparr>pendingRequests := pendingRequests m - {responseRequest resp}\<rparr>
        \<and> responseRequest resp \<notin> pendingRequests (onResponse now resp m)
        \<and> lastActivity (onResponse now resp m) = lastActivity m"
      by (simp add: eq)
  qed
qed

text \<open>
  A script from \<open>ad.doubleclick.net\<close> is not added; the response \<open>video/mp4\<close> to a pending
  document request empties the pending set and keeps the last activity at 1000.
\<close>

theorem monitor_filters_witness:
  "includesStr ''https://ad.doubleclick.net/tag.js'' ''doubleclick''
   \<and> ''script'' \<in> set RELEVANT_RESOURCE_TYPES
   \<and> onRequest 1000
        \<lparr>requestId = 1, resourceType = ''script'',
         requestUrl = ''https://ad.doubleclick.net/tag.js'', requestHeaders = []\<rparr>
        \<lparr>pendingRequests = {}, lastActivity = 0\<rparr>
      = \<lparr>pendingRequests = {}, lastActivity = 0\<rparr>
   \<and> includesStr ''video/mp4'' ''mp4''
   \<and> onResponse 2000
        \<lparr>responseRequest = \<lparr>requestId = 2, resourceType = ''document'',
            requestUrl = ''https://example.org/clip'', requestHeaders = []\<rparr>,
         responseHeaders = [(''content-type'', ''video/mp4'')]\<rparr>
        \<lparr>pendingRequests = {\<lparr>requestId = 2, resourceType = ''document'',
            requestUrl = ''https://example.org/clip'', requestHeaders = []\<rparr>},
         lastActivity = 1000\<rparr>
      = \<lparr>pendingRequests = {}, lastActivity = 1000\<rparr>"
proof -
  let ?ad = "\<lparr>requestId = 1, resourceType = ''script'',
         requestUrl = ''https://ad.doubleclick.net/tag.js'', requestHeaders = []\<rparr>"
  let ?clip = "\<lparr>requestId = 2, resourceType = ''document'',
            requestUrl = ''https://example.org/clip'', requestHeaders = []\<rparr>"
  let ?resp = "\<lparr>responseRequest = ?clip, responseHeaders = [(''content-type'', ''video/mp4'')]\<rparr>"
  let ?m = "\<lparr>pendingRequests = {?clip}, lastActivity = 1000\<rparr>"
  have i1: "includesStr ''https://ad.doubleclick.net/tag.js'' ''doubleclick''" by code_simp
  have i2: "includesStr ''video/mp4'' ''mp4''" by code_simp
  have p1: "''doubleclick'' \<in> set IGNORED_URL_PATTERNS" by (simp add: IGNORED_URL_PATTERNS_def)
  have p2: "''mp4'' \<in> set STREAMING_CONTENT_TYPES" by (simp add: STREAMING_CONTENT_TYPES_def)
  have "\<exists>pattern \<in> set IGNORED_URL_PATTERNS. includesStr (requestUrl ?ad) pattern"
    using i1 p1 by (intro bexI[of _ "''doubleclick''"]) simp_all
  then have r1: "onRequest 1000 ?ad \<lparr>pendingRequests = {}, lastActivity = 0\<rparr>
          = \<lparr>pendingRequests = {}, lastActivity = 0\<rparr>"
    using monitor_filters [of ?ad 1000 "\<lparr>pendingRequests = {}, lastActivity = 0\<rparr>" ?resp "''video/mp4''"]
    by blast
  have "\<exists>t \<in> set STREAMING_CONTENT_TYPES. includesStr ''video/mp4'' t"
    using i2 p2 by (intro bexI[of _ "''mp4''"]) simp_all
  moreover have "responseRequest ?resp \<in> pendingRequests ?m" by simp
  moreover have "map_of (responseHeaders ?resp) ''content-type'' = Some ''video/mp4''" by simp
  ultimately have "onResponse 2000 ?resp ?m
        = ?m\<lparr>pendingRequests := pendingRequests ?m - {responseRequest ?resp}\<rparr>"
    using monitor_filters [of ?ad 2000 ?m ?resp "''video/mp4''"] by blast
  then have r2: "onResponse 2000 ?resp ?m = \<lparr>pendingRequests = {}, lastActivity = 1000\<rparr>"
    by simp
  show ?thesis using i1 i2 r1 r2 by (simp add: RELEVANT_RESOURCE_TYPES_def)
qed

section \<open>Scrolling: what is proved\<close>

text \<open>
  Claim C8 says that \<open>scrollDown(amount)\<close> and \<open>scrollUp(amount)\<close> scroll by exactly the
  given amount for every provided amount. The source tests \<open>if (amount)\<close>, so the amount 0
  is taken for an omitted one: with a viewport 800 pixels high, \<open>scrollDown(0)\<close> scrolls
  down by 800 and \<open>scrollUp(0)\<close> scrolls up by 800, where the claim says 0.
\<close>

theorem scroll_zero_amount:
  "scrollDown True 800 (Some 0) = ScrollBy 800 \<and> scrollUp True 800 (Some 0) = ScrollBy (- 800)"
  by (simp add: scrollDown_def scrollUp_def)

section \<open>The state refresh: what is proved\<close>

text \<open>
  A refresh keeps the stored state when a step before the assignments fails: the removal
  of the highlights, the extraction (an exception or a null result), the screenshot, or
  the scroll information.
\<close>

lemma refresh_keeps_state:
  assumes "removeHighlight w pg = Throws e1
           \<or> getClickableElements w pg focus = Throws e2
           \<or> getClickableElements w pg focus = Returns None
           \<or> (useVision \<and> takeScreenshot w pg = Throws e3)
           \<or> getScrollInfo w pg = Throws e4"
  shows "refreshState w useVision focus pg = (pageState pg, pg)"
  using assms unfolding refreshState_def
  by (auto split: outcome.splits option.splits prod.splits)

text \<open>
  Claim C1 says that a failed refresh returns the previous \<open>PageState\<close> with every field
  unchanged, never partially overwritten. The source assigns the fields of \<open>this._state\<close>
  one by one and awaits the title of the page between the assignments. When the
  extraction succeeds and the read of the title throws, the \<open>catch\<close> branch returns
  \<open>this._state\<close> with the new element tree, selector map and url, and the old title,
  screenshot and scroll offsets.
\<close>

theorem failed_refresh_overwrites_part:
  "updateState staleTitleWorld True (- 1) samplePage
     = (Inr (sampleState\<lparr>elementTree := domElementTree sampleContent,
                         selectorMap := domSelectorMap sampleContent,
                         url := ''https://example.org/new''\<rparr>),
        samplePage\<lparr>pageState := sampleState\<lparr>elementTree := domElementTree sampleContent,
                         selectorMap := domSelectorMap sampleContent,
                         url := ''https://example.org/new''\<rparr>\<rparr>)
   \<and> titleOf staleTitleWorld 1 = Throws ''Execution context was destroyed''
   \<and> pageState samplePage = sampleState
   \<and> url sampleState = ''https://example.org/old''
   \<and> selectorMap sampleState \<noteq> domSelectorMap sampleContent
   \<and> elementTree sampleState \<noteq> domElementTree sampleContent"
  by (simp add: Let_def updateState_def recoverPage_def refreshState_def removeHighlight_def
      getClickableElements_def takeScreenshot_def getScrollInfo_def staleTitleWorld_def
      sampleWorld_def samplePage_def sampleState_def sampleContent_def sampleFreeButton_def sampleRoot_def
      sampleButton_def)

section \<open>locateElement: what is proved\<close>

lemma enterFrames_append:
  "enterFrames w incl (before @ rest) cur =
     (case enterFrames w incl before cur of
        (Inr (Some mid), calls) \<Rightarrow>
          (case enterFrames w incl rest mid of (r, further) \<Rightarrow> (r, calls @ further))
      | other \<Rightarrow> other)"
proof (induction before arbitrary: cur)
  case Nil
  then show ?case by (simp split: prod.splits)
next
  case (Cons up before)
  show ?case
    by (simp add: Let_def Cons.IH split: option.splits outcome.splits prod.splits sum.splits)
qed

lemma enterFrames_enter:
  assumes "matching w cur (enhancedCssSelectorForElement incl up) = Returns (fe # others)"
    and "contentFrame w fe = Returns (Some f)"
  shows "enterFrames w incl (up # rest) cur =
           (case enterFrames w incl rest (FrameContext f) of
              (r, calls) \<Rightarrow> (r, (cur, enhancedCssSelectorForElement incl up) # calls))"
  using assms by (simp add: Let_def dollar_def)

lemma enterFrames_blocked:
  assumes "enterFrames w incl before cur0 = (Inr (Some cur), calls)"
    and "matching w cur (enhancedCssSelectorForElement incl blocked) = Returns []
         \<or> (\<exists>fe others.
               matching w cur (enhancedCssSelectorForElement incl blocked) = Returns (fe # others)
               \<and> contentFrame w fe = Returns None)"
  shows "enterFrames w incl (before @ blocked # after) cur0
           = (Inr None, calls @ [(cur, enhancedCssSelectorForElement incl blocked)])"
proof -
  have "enterFrames w incl (blocked # after) cur
          = (Inr None, [(cur, enhancedCssSelectorForElement incl blocked)])"
    using assms(2) by (auto simp add: Let_def dollar_def)
  then show ?thesis using assms(1) by (simp add: enterFrames_append)
qed

lemma enterFrames_throws:
  assumes "enterFrames w incl before cur0 = (Inr (Some cur), calls)"
    and "matching w cur (enhancedCssSelectorForElement incl blocked) = Throws e
         \<or> (\<exists>fe others.
               matching w cur (enhancedCssSelectorForElement incl blocked) = Returns (fe # others)
               \<and> contentFrame w fe = Throws e)"
  shows "enterFrames w incl (before @ blocked # after) cur0
           = (Inl (Thrown e), calls @ [(cur, enhancedCssSelectorForElement incl blocked)])"
proof -
  have "enterFrames w incl (blocked # after) cur
          = (Inl (Thrown e), [(cur, enhancedCssSelectorForElement incl blocked)])"
    using assms(2) by (auto simp add: Let_def dollar_def)
  then show ?thesis using assms(1) by (simp add: enterFrames_append)
qed

lemma attempt_primitive:
  "attempt w cur =
     (\<lambda>selector.
        case matching w cur selector of
          Throws e \<Rightarrow> None
        | Returns [] \<Rightarrow> None
        | Returns (first # others) \<Rightarrow>
            (case scrollWaitLocate w first of Throws e \<Rightarrow> None | Returns u \<Rightarrow> Some first))"
  by (rule ext) (simp add: attempt_def dollar_def split: outcome.splits list.splits)

lemma firstSuccess_append:
  "firstSuccess f (xs @ ys) =
     (case firstSuccess f xs of
        (Some r, tried) \<Rightarrow> (Some r, tried)
      | (None, tried) \<Rightarrow> (case firstSuccess f ys of (r, further) \<Rightarrow> (r, tried @ further)))"
  by (induction xs) (auto split: option.splits prod.splits)

lemma strategy5_ladder:
  "strategy5 w cur el asked =
     (case firstSuccess (attempt w cur)
             (if truthy (attr el ''aria-label'') \<and> truthy (tagName el) then
                [strOf (tagName el) @ ''[aria-label='' @ [CHR 0x22]
                   @ strOf (attr el ''aria-label'') @ [CHR 0x22] @ '']'']
              else []) of
        (r, tried) \<Rightarrow> (r, asked @ tried))"
  unfolding strategy5_def by (simp add: Let_def split: option.splits)

lemma strategy4_ladder:
  "strategy4 w cur el asked =
     (case firstSuccess (attempt w cur)
             ((if truthy (attr el ''name'') \<and> truthy (tagName el) then
                [strOf (tagName el) @ ''[name='' @ [CHR 0x22] @ strOf (attr el ''name'')
                   @ [CHR 0x22] @ '']'']
               else [])
              @ (if truthy (attr el ''aria-label'') \<and> truthy (tagName el) then
                [strOf (tagName el) @ ''[aria-label='' @ [CHR 0x22]
                   @ strOf (attr el ''aria-label'') @ [CHR 0x22] @ '']'']
              else [])) of
        (r, tried) \<Rightarrow> (r, asked @ tried))"
  unfolding strategy4_def
  by (simp add: Let_def strategy5_ladder firstSuccess_append split: option.splits prod.splits)

lemma strategy3_ladder:
  "strategy3 w cur el asked =
     (case firstSuccess (attempt w cur)
             ((if truthy (attr el ''id'') then [''#'' @ strOf (attr el ''id'')] else [])
              @ (if truthy (attr el ''name'') \<and> truthy (tagName el) then
                [strOf (tagName el) @ ''[name='' @ [CHR 0x22] @ strOf (attr el ''name'')
                   @ [CHR 0x22] @ '']'']
               else [])
              @ (if truthy (attr el ''aria-label'') \<and> truthy (tagName el) then
                [strOf (tagName el) @ ''[aria-label='' @ [CHR 0x22]
                   @ strOf (attr el ''aria-label'') @ [CHR 0x22] @ '']'']
              else [])) of
        (r, tried) \<Rightarrow> (r, asked @ tried))"
  unfolding strategy3_def
  by (simp add: Let_def strategy4_ladder firstSuccess_append[of _ "[_]"]
      split: option.splits prod.splits)

lemma strategy2_ladder:
  "strategy2 w cur el asked =
     (case firstSuccess (attempt w cur)
             ((if truthy (xpath el) then [''xpath/'' @ strOf (xpath el)] else [])
              @ (if truthy (attr el ''id'') then [''#'' @ strOf (attr el ''id'')] else [])
              @ (if truthy (attr el ''name'') \<and> truthy (tagName el) then
                [strOf (tagName el) @ ''[name='' @ [CHR 0x22] @ strOf (attr el ''name'')
                   @ [CHR 0x22] @ '']'']
               else [])
              @ (if truthy (attr el ''aria-label'') \<and> truthy (tagName el) then
                [strOf (tagName el) @ ''[aria-label='' @ [CHR 0x22]
                   @ strOf (attr el ''aria-label'') @ [CHR 0x22] @ '']'']
              else [])) of
        (r, tried) \<Rightarrow> (r, asked @ tried))"
  unfolding strategy2_def
  by (simp add: Let_def strategy3_ladder firstSuccess_append[of _ "[_]"]
      split: option.splits prod.splits)

lemma strategy1_ladder:
  "strategy1 w cur el css = firstSuccess (attempt w cur) (strategies el css)"
  unfolding strategy1_def strategies_def
  by (simp add: strategy2_ladder split: option.splits prod.splits)

lemma firstSuccess_none:
  "(\<forall>s \<in> set xs. f s = None) \<Longrightarrow> firstSuccess f xs = (None, xs)"
  by (induction xs) auto

lemma firstSuccess_found:
  "fst (firstSuccess f xs) = Some r \<Longrightarrow>
     \<exists>failed s rest. xs = failed @ s # rest \<and> (\<forall>x \<in> set failed. f x = None) \<and> f s = Some r
        \<and> snd (firstSuccess f xs) = failed @ [s]"
proof (induction xs)
  case Nil
  then show ?case by simp
next
  case (Cons x xs)
  show ?case
  proof (cases "f x")
    case None
    then have "fst (firstSuccess f xs) = Some r" using Cons.prems by (auto split: prod.splits)
    then obtain failed s rest where
      h: "xs = failed @ s # rest" "\<forall>x \<in> set failed. f x = None" "f s = Some r"
         "snd (firstSuccess f xs) = failed @ [s]"
      using Cons.IH by blast
    have "x # xs = (x # failed) @ s # rest" using h(1) by simp
    moreover have "\<forall>y \<in> set (x # failed). f y = None" using h(2) None by simp
    moreover have "snd (firstSuccess f (x # xs)) = (x # failed) @ [s]"
      using None h(4) by (auto split: prod.splits)
    ultimately show ?thesis using h(3) by blast
  next
    case (Some a)
    then have "a = r" using Cons.prems by simp
    then have "x # xs = [] @ x # xs \<and> (\<forall>y \<in> set []. f y = None) \<and> f x = Some r
        \<and> snd (firstSuccess f (x # xs)) = [] @ [x]"
      using Some by simp
    then show ?thesis by blast
  qed
qed

text \<open>
  Claim C2 says that the strategy returned is the first that yields a unique existing
  handle, and that an iframe ancestor whose selector fails to resolve makes the result
  not-found. \<open>$\<close> returns the first element that matches and the source checks nothing
  more: where two elements match the synthesized selector and the raw XPath matches one
  element alone, the result is the first match of the synthesized selector. And the loop
  over the iframe ancestors has no \<open>try\<close>, unlike the five strategies: where resolving the
  selector of an iframe throws, the call rejects with that error.
\<close>

theorem locate_first_match_counterexample:
  "matching twinWorld (PageContext 1) ''button#go'' = Returns [9, 10]
   \<and> matching twinWorld (PageContext 1) ''xpath/html/body/button'' = Returns [10]
   \<and> locateElement twinWorld samplePage sampleFreeButton
       = (Inr (Some 9), [(PageContext 1, ''button#go'')])
   \<and> matching brokenFrameWorld (PageContext 1) ''iframe#pay'' = Throws ''Protocol error''
   \<and> locateElement brokenFrameWorld samplePage sampleButton
       = (Inl (Thrown ''Protocol error''), [(PageContext 1, ''iframe#pay'')])"
  by code_simp

text \<open>
  Claim C2, amended. On an attached page, for every node, the iframe ancestors are walked
  from the top: an ancestor is entered when the first match of its synthesized selector
  has a content frame, and the walk goes on inside that frame. If the selector of an
  ancestor matches no element there, or the first match has no content frame, the result
  is not-found, and the last call of \<open>$\<close> is the one for that iframe: no strategy is tried.
  Otherwise, with every iframe ancestor entered, the strategies are tried in the frame
  reached in exactly the order synthesized CSS selector, raw XPath, exact id selector,
  \<open>tag[name=...]\<close>, \<open>tag[aria-label=...]\<close>, each where the node has what it needs; a
  strategy succeeds when its selector matches an element, unique or not, and the
  scroll-stabilization wait on the first match returns, and it fails when nothing matches
  or the query or the wait throws; the result is the first match of the first strategy
  that succeeds, and the calls of \<open>$\<close> stop there; exhausting all strategies returns
  not-found rather than raising. (What happens when the query or the content frame of an
  iframe ancestor throws is not part of the statement.)
\<close>

theorem locateElement_ladder:
  assumes "puppeteerPage pg = Some h"
  shows "enterFrames w (includeDynamicAttributes (pageConfig pg)) [] scope = (Inr (Some scope), [])
       \<and> (matching w scope (enhancedCssSelectorForElement (includeDynamicAttributes (pageConfig pg)) up)
              = Returns (fe # others)
          \<and> contentFrame w fe = Returns (Some f)
          \<longrightarrow> enterFrames w (includeDynamicAttributes (pageConfig pg)) (up # rest) scope
                = (case enterFrames w (includeDynamicAttributes (pageConfig pg)) rest
                          (FrameContext f) of
                     (r, calls) \<Rightarrow>
                       (r, (scope, enhancedCssSelectorForElement
                                     (includeDynamicAttributes (pageConfig pg)) up) # calls)))
       \<and> (iframes el = before @ blocked # after
          \<and> enterFrames w (includeDynamicAttributes (pageConfig pg)) before (PageContext h)
              = (Inr (Some cur), calls)
          \<and> (matching w cur (enhancedCssSelectorForElement
                                (includeDynamicAttributes (pageConfig pg)) blocked) = Returns []
              \<or> (\<exists>frameElement more.
                    matching w cur (enhancedCssSelectorForElement
                                      (includeDynamicAttributes (pageConfig pg)) blocked)
                      = Returns (frameElement # more)
                    \<and> contentFrame w frameElement = Returns None))
          \<longrightarrow> locateElement w pg el
                = (Inr None,
                   calls @ [(cur, enhancedCssSelectorForElement
                                    (includeDynamicAttributes (pageConfig pg)) blocked)]))
       \<and> (enterFrames w (includeDynamicAttributes (pageConfig pg)) (iframes el) (PageContext h)
              = (Inr (Some inner), asked)
          \<longrightarrow> locateElement w pg el
                = (case firstSuccess
                          (\<lambda>selector.
                             case matching w inner selector of
                               Throws e \<Rightarrow> None
                             | Returns [] \<Rightarrow> None
                             | Returns (first # others) \<Rightarrow>
                                 (case scrollWaitLocate w first of
                                    Throws e \<Rightarrow> None
                                  | Returns u \<Rightarrow> Some first))
                          (strategies el
                             (enhancedCssSelectorForElement
                                (includeDynamicAttributes (pageConfig pg)) el)) of
                     (r, tried) \<Rightarrow> (Inr r, asked @ map (Pair inner) tried))
              \<and> ((\<forall>selector \<in> set (strategies el
                                          (enhancedCssSelectorForElement
                                             (includeDynamicAttributes (pageConfig pg)) el)).
                      matching w inner selector = Returns []
                      \<or> (\<exists>e. matching w inner selector = Throws e)
                      \<or> (\<exists>first others e.
                            matching w inner selector = Returns (first # others)
                            \<and> scrollWaitLocate w first = Throws e))
                   \<longrightarrow> locateElement w pg el
                         = (Inr None,
                            asked @ map (Pair inner)
                              (strategies el
                                 (enhancedCssSelectorForElement
                                    (includeDynamicAttributes (pageConfig pg)) el)))))"
proof -
  let ?incl = "includeDynamicAttributes (pageConfig pg)"
  have base: "enterFrames w ?incl [] scope = (Inr (Some scope), [])" by simp
  have step: "matching w scope (enhancedCssSelectorForElement ?incl up) = Returns (fe # others)
          \<and> contentFrame w fe = Returns (Some f)
          \<longrightarrow> enterFrames w ?incl (up # rest) scope
                = (case enterFrames w ?incl rest (FrameContext f) of
                     (r, calls) \<Rightarrow> (r, (scope, enhancedCssSelectorForElement ?incl up) # calls))"
    using enterFrames_enter[of w scope ?incl up fe others f rest] by blast
  have blocked: "iframes el = before @ blocked # after
          \<and> enterFrames w ?incl before (PageContext h) = (Inr (Some cur), calls)
          \<and> (matching w cur (enhancedCssSelectorForElement ?incl blocked) = Returns []
              \<or> (\<exists>frameElement more.
                    matching w cur (enhancedCssSelectorForElement ?incl blocked)
                      = Returns (frameElement # more)
                    \<and> contentFrame w frameElement = Returns None))
          \<longrightarrow> locateElement w pg el
                = (Inr None, calls @ [(cur, enhancedCssSelectorForElement ?incl blocked)])"
  proof (rule impI)
    assume a: "iframes el = before @ blocked # after
          \<and> enterFrames w ?incl before (PageContext h) = (Inr (Some cur), calls)
          \<and> (matching w cur (enhancedCssSelectorForElement ?incl blocked) = Returns []
              \<or> (\<exists>frameElement more.
                    matching w cur (enhancedCssSelectorForElement ?incl blocked)
                      = Returns (frameElement # more)
                    \<and> contentFrame w frameElement = Returns None))"
    then have "enterFrames w ?incl (iframes el) (PageContext h)
                 = (Inr None, calls @ [(cur, enhancedCssSelectorForElement ?incl blocked)])"
      using enterFrames_blocked[of w ?incl before "PageContext h" cur calls blocked after]
      by simp
    then show "locateElement w pg el
                = (Inr None, calls @ [(cur, enhancedCssSelectorForElement ?incl blocked)])"
      using assms by (simp add: locateElement_def)
  qed
  let ?probe = "\<lambda>selector.
                 case matching w inner selector of
                   Throws e \<Rightarrow> None
                 | Returns [] \<Rightarrow> None
                 | Returns (first # others) \<Rightarrow>
                     (case scrollWaitLocate w first of
                        Throws e \<Rightarrow> None
                      | Returns u \<Rightarrow> Some first)"
  let ?all = "strategies el (enhancedCssSelectorForElement ?incl el)"
  have ladder: "enterFrames w ?incl (iframes el) (PageContext h) = (Inr (Some inner), asked)
          \<longrightarrow> locateElement w pg el
                = (case firstSuccess ?probe ?all of
                     (r, tried) \<Rightarrow> (Inr r, asked @ map (Pair inner) tried))
              \<and> ((\<forall>selector \<in> set ?all.
                      matching w inner selector = Returns []
                      \<or> (\<exists>e. matching w inner selector = Throws e)
                      \<or> (\<exists>first others e.
                            matching w inner selector = Returns (first # others)
                            \<and> scrollWaitLocate w first = Throws e))
                   \<longrightarrow> locateElement w pg el = (Inr None, asked @ map (Pair inner) ?all))"
  proof (rule impI)
    assume a: "enterFrames w ?incl (iframes el) (PageContext h) = (Inr (Some inner), asked)"
    have eq: "locateElement w pg el
                = (case firstSuccess ?probe ?all of
                     (r, tried) \<Rightarrow> (Inr r, asked @ map (Pair inner) tried))"
      using assms a by (simp add: locateElement_def strategy1_ladder attempt_primitive)
    have "locateElement w pg el = (Inr None, asked @ map (Pair inner) ?all)"
      if f: "\<forall>selector \<in> set ?all.
                      matching w inner selector = Returns []
                      \<or> (\<exists>e. matching w inner selector = Throws e)
                      \<or> (\<exists>first others e.
                            matching w inner selector = Returns (first # others)
                            \<and> scrollWaitLocate w first = Throws e)"
    proof -
      have "\<forall>selector \<in> set ?all. ?probe selector = None"
        using f by (auto split: outcome.splits list.splits)
      then have "firstSuccess ?probe ?all = (None, ?all)" by (rule firstSuccess_none)
      then show ?thesis using eq by simp
    qed
    then show "locateElement w pg el
                = (case firstSuccess ?probe ?all of
                     (r, tried) \<Rightarrow> (Inr r, asked @ map (Pair inner) tried))
              \<and> ((\<forall>selector \<in> set ?all.
                      matching w inner selector = Returns []
                      \<or> (\<exists>e. matching w inner selector = Throws e)
                      \<or> (\<exists>first others e.
                            matching w inner selector = Returns (first # others)
                            \<and> scrollWaitLocate w first = Throws e))
                   \<longrightarrow> locateElement w pg el = (Inr None, asked @ map (Pair inner) ?all))"
      using eq by blast
  qed
  show ?thesis using base step blocked ladder by blast
qed

text \<open>The sample button, its frame and their selectors.\<close>

lemma sample_config:
  "includeDynamicAttributes (pageConfig samplePage) = True"
  "puppeteerPage samplePage = Some 1"
  by (simp_all add: samplePage_def)

lemma sample_selectors:
  "iframes sampleButton = [] @ sampleFrame # []"
  "iframes sampleFreeButton = []"
  "enhancedCssSelectorForElement True sampleFrame = ''iframe#pay''"
  "enhancedCssSelectorForElement True sampleButton = ''button#go''"
  "enhancedCssSelectorForElement True sampleFreeButton = ''button#go''"
  "strategies sampleButton ''button#go'' =
     [''button#go'', ''xpath/html/body/button'', ''#go'',
      ''button[name='' @ [CHR 0x22] @ ''submit'' @ [CHR 0x22] @ '']'']"
  "strategies sampleFreeButton ''button#go'' = strategies sampleButton ''button#go''"
  by code_simp+

lemma framed_enter:
  "enterFrames framedWorld True [sampleFrame] (PageContext 1)
     = (Inr (Some (FrameContext 2)), [(PageContext 1, ''iframe#pay'')])"
  by code_simp

lemma framed_first:
  "firstSuccess
     (\<lambda>selector.
        case matching framedWorld (FrameContext 2) selector of
          Throws e \<Rightarrow> None
        | Returns [] \<Rightarrow> None
        | Returns (first # others) \<Rightarrow>
            (case scrollWaitLocate framedWorld first of Throws e \<Rightarrow> None | Returns u \<Rightarrow> Some first))
     [''button#go'', ''xpath/html/body/button'', ''#go'',
      ''button[name='' @ [CHR 0x22] @ ''submit'' @ [CHR 0x22] @ '']'']
     = (Some 9, [''button#go'', ''xpath/html/body/button''])"
  by code_simp

lemma framed_wait:
  "matching framedWorld (FrameContext 2) ''button#go'' = Returns [8]"
  "scrollWaitLocate framedWorld 8 = Throws ''Timed out while trying to scroll element into view''"
  by code_simp+

lemma sample_nothing: "matching sampleWorld scope selector = Returns []"
  by (simp add: sampleWorld_def)

text \<open>
  The theorem at work: the iframe does not resolve and nothing else is asked; the iframe
  resolves, the synthesized selector finds an element whose scroll wait times out, and the
  raw XPath, the second strategy, gives the handle; outside any frame all four strategies
  of the button fail and the result is not-found.
\<close>

theorem locateElement_ladder_witness:
  "puppeteerPage samplePage = Some 1
   \<and> matching sampleWorld (PageContext 1) ''iframe#pay'' = Returns []
   \<and> locateElement sampleWorld samplePage sampleButton
       = (Inr None, [(PageContext 1, ''iframe#pay'')])
   \<and> matching framedWorld (FrameContext 2) ''button#go'' = Returns [8]
   \<and> scrollWaitLocate framedWorld 8 = Throws ''Timed out while trying to scroll element into view''
   \<and> locateElement framedWorld samplePage sampleButton
       = (Inr (Some 9), [(PageContext 1, ''iframe#pay''), (FrameContext 2, ''button#go''),
                         (FrameContext 2, ''xpath/html/body/button'')])
   \<and> locateElement sampleWorld samplePage sampleFreeButton
       = (Inr None, [(PageContext 1, ''button#go''), (PageContext 1, ''xpath/html/body/button''),
                     (PageContext 1, ''#go''),
                     (PageContext 1, ''button[name='' @ [CHR 0x22] @ ''submit'' @ [CHR 0x22] @ '']'')])"
proof -
  have 1: "locateElement sampleWorld samplePage sampleButton
       = (Inr None, [(PageContext 1, ''iframe#pay'')])"
    using locateElement_ladder
      [where pg = samplePage and h = 1 and w = sampleWorld and el = sampleButton
         and before = "[]" and blocked = sampleFrame and after = "[]"
         and cur = "PageContext 1" and calls = "[]" and scope = "PageContext 1"]
      sample_config sample_selectors sample_nothing
    by simp
  have 2: "locateElement framedWorld samplePage sampleButton
       = (Inr (Some 9), [(PageContext 1, ''iframe#pay''), (FrameContext 2, ''button#go''),
                         (FrameContext 2, ''xpath/html/body/button'')])"
    using locateElement_ladder
      [where pg = samplePage and h = 1 and w = framedWorld and el = sampleButton
         and inner = "FrameContext 2" and asked = "[(PageContext 1, ''iframe#pay'')]"]
      sample_config sample_selectors framed_enter framed_first
    by simp
  have 3: "locateElement sampleWorld samplePage sampleFreeButton
       = (Inr None, [(PageContext 1, ''button#go''), (PageContext 1, ''xpath/html/body/button''),
                     (PageContext 1, ''#go''),
                     (PageContext 1, ''button[name='' @ [CHR 0x22] @ ''submit'' @ [CHR 0x22] @ '']'')])"
    using locateElement_ladder
      [where pg = samplePage and h = 1 and w = sampleWorld and el = sampleFreeButton
         and inner = "PageContext 1" and asked = "[]"]
      sample_config sample_selectors sample_nothing
    by simp
  show ?thesis using 1 2 3 framed_wait sample_nothing sample_config by simp
qed

section \<open>clickElementNode: what is proved\<close>












end
